theory Spec2Isabelle
  imports Main
begin

section \<open>Go values shared by the components\<close>

text \<open>
  A Go \<open>error\<close> value is represented by the text its \<open>Error()\<close> method returns;
  \<open>errors.New\<close> builds one from a text. A nil error is \<open>None\<close> of \<open>error option\<close>,
  and a pair \<open>(value, err)\<close> of which the caller reads only one side is a sum, with
  \<open>Inl\<close> for the error.
\<close>

datatype error = errors_New string

fun Error :: "error \<Rightarrow> string" where
  "Error (errors_New text) = text"

section \<open>Resource resolver: \<open>chainedFileSystem\<close> and \<open>noReaddirFile\<close>\<close>

text \<open>
  An \<open>http.File\<close> as a provider hands it out: its bytes and the directory entries its
  own \<open>Readdir\<close> would report. An \<open>http.FileSystem\<close> is its \<open>Open\<close> method.
\<close>

record File =
  file_data :: string
  dirents :: "string list"

type_synonym FileSystem = "string \<Rightarrow> error + File"

record chainedFileSystem =
  fs :: "FileSystem list"

text \<open>\<open>type noReaddirFile struct { http.File }\<close>: a wrapper around the provider's file.\<close>

datatype noReaddirFile = noReaddirFile File

text \<open>
  \<open>func (file noReaddirFile) Readdir(count int) ([]os.FileInfo, error) { return nil, nil }\<close>:
  the nil slice is the empty list, the nil error is \<open>None\<close>.
\<close>

definition Readdir :: "noReaddirFile \<Rightarrow> int \<Rightarrow> string list \<times> error option" where
  "Readdir file count = ([], None)"

text \<open>
  The loop \<open>for i := range cfs.fs\<close> of \<open>chainedFileSystem.Open\<close>, from index \<open>i\<close> on.
  \<open>lastIdx\<close> is \<open>len(cfs.fs) - 1\<close>, a Go \<open>int\<close> (so \<open>-1\<close> for the empty list).
  Leaving the loop without a return gives the \<open>Algorithm failure\<close> error.
\<close>

function Open_loop :: "FileSystem list \<Rightarrow> int \<Rightarrow> nat \<Rightarrow> string \<Rightarrow> error + noReaddirFile" where
  "Open_loop fsl lastIdx i name =
     (if i < length fsl then
        (case (fsl ! i) name of
           Inl err \<Rightarrow>
             if int i = lastIdx then Inl err
             else Open_loop fsl lastIdx (i + 1) name
         | Inr f \<Rightarrow> Inr (noReaddirFile f))
      else Inl (errors_New ''Algorithm failure''))"
  by pat_completeness auto
termination
  by (relation "measure (\<lambda>(fsl, lastIdx, i, name). length fsl - i)") auto

declare Open_loop.simps [simp del]

definition Open :: "chainedFileSystem \<Rightarrow> string \<Rightarrow> error + noReaddirFile" where
  "Open cfs name = (let lastIdx = int (length (fs cfs)) - 1 in Open_loop (fs cfs) lastIdx 0 name)"

text \<open>
  Two example bundles: the first holds only \<open>a.css\<close>, the second holds a directory
  \<open>x\<close> with two entries.
\<close>

definition bundleA :: FileSystem where
  "bundleA name = (if name = ''a.css'' then Inr \<lparr>file_data = ''A'', dirents = []\<rparr>
                   else Inl (errors_New ''A: no such file''))"

definition bundleB :: FileSystem where
  "bundleB name = (if name = ''x'' then Inr \<lparr>file_data = ''B'', dirents = [''p'', ''q'']\<rparr>
                   else Inl (errors_New ''B: no such file''))"

section \<open>Command dispatcher\<close>

text \<open>
  An \<open>http.ResponseWriter\<close> as a handler sees it: the status line is fixed by the first
  \<open>WriteHeader\<close> (a later call changes nothing), \<open>Write\<close> appends to the body and
  sends status 200 first if no header went out yet.
\<close>

record ResponseWriter =
  status :: "nat option"
  body :: string

definition WriteHeader :: "nat \<Rightarrow> ResponseWriter \<Rightarrow> ResponseWriter" where
  "WriteHeader code w = (case status w of None \<Rightarrow> w\<lparr>status := Some code\<rparr> | Some c \<Rightarrow> w)"

definition Write :: "string \<Rightarrow> ResponseWriter \<Rightarrow> ResponseWriter" where
  "Write b w = (let w' = WriteHeader 200 w in w'\<lparr>body := body w' @ b\<rparr>)"

text \<open>The writer a handler is called with: nothing sent yet.\<close>

definition NewResponseWriter :: ResponseWriter where
  "NewResponseWriter = \<lparr>status = None, body = []\<rparr>"

text \<open>
  The session \<open>*gdblib.GDB\<close>. The library is not part of the repository, so its
  methods are parameters: each takes the session state \<open>'s\<close> and returns its Go result
  with the new state. Parameter structs are values of \<open>'p\<close>, results values of \<open>'r\<close>.
\<close>

record ('s, 'p, 'r) GDB =
  ThreadListIds :: "'s \<Rightarrow> (error + 'r) \<times> 's"
  ThreadSelect :: "'p \<Rightarrow> 's \<Rightarrow> (error + 'r) \<times> 's"
  ThreadInfo :: "'p \<Rightarrow> 's \<Rightarrow> (error + 'r) \<times> 's"
  StackInfoFrame :: "'s \<Rightarrow> (error + 'r) \<times> 's"
  StackListFrames :: "'p \<Rightarrow> 's \<Rightarrow> (error + 'r) \<times> 's"
  StackListVariables :: "'p \<Rightarrow> 's \<Rightarrow> (error + 'r) \<times> 's"
  ExecNext :: "'p \<Rightarrow> 's \<Rightarrow> error option \<times> 's"
  ExecStep :: "'p \<Rightarrow> 's \<Rightarrow> error option \<times> 's"
  ExecContinue :: "'p \<Rightarrow> 's \<Rightarrow> error option \<times> 's"
  ExecRun :: "'p \<Rightarrow> 's \<Rightarrow> error option \<times> 's"
  ExecInterrupt :: "'p \<Rightarrow> 's \<Rightarrow> error option \<times> 's"
  BreakList :: "'s \<Rightarrow> (error + 'r) \<times> 's"
  BreakInsert :: "'p \<Rightarrow> 's \<Rightarrow> (error + 'r) \<times> 's"
  BreakEnable :: "'p \<Rightarrow> 's \<Rightarrow> error option \<times> 's"
  BreakDisable :: "'p \<Rightarrow> 's \<Rightarrow> error option \<times> 's"
  GdbExit :: "'s \<Rightarrow> 's"

text \<open>
  The composite literals \<open>gdblib.ThreadSelectParms{}\<close>, ...: the zero value of each
  parameter struct, which the handler hands to the decoder.
\<close>

record 'p gdblib =
  ThreadSelectParms :: 'p
  ThreadInfoParms :: 'p
  StackListFramesParms :: 'p
  StackListVariablesParms :: 'p
  ExecNextParms :: 'p
  ExecStepParms :: 'p
  ExecContinueParms :: 'p
  ExecRunParms :: 'p
  ExecInterruptParms :: 'p
  BreakInsertParms :: 'p
  BreakEnableParms :: 'p
  BreakDisableParms :: 'p

text \<open>
  \<open>encoding/json\<close>, as the handlers use it. \<open>Decode body parms\<close> is
  \<open>json.NewDecoder(r.Body).Decode(&parms)\<close>: it returns the error and the value left
  in \<open>parms\<close>. \<open>DecodeMap\<close> is the same call on a \<open>map[string]string\<close>.
  \<open>Marshal\<close> is \<open>json.Marshal\<close> on a result.
\<close>

record ('p, 'r) json =
  Decode :: "string \<Rightarrow> 'p \<Rightarrow> error option \<times> 'p"
  DecodeMap :: "string \<Rightarrow> (string \<rightharpoonup> string) \<Rightarrow> error option \<times> (string \<rightharpoonup> string)"
  Marshal :: "'r \<Rightarrow> error + string"

text \<open>
  An opened \<open>*os.File\<close>: the bytes \<open>io.Copy\<close> reads from it and the error the copy
  ends with. \<open>io.Copy(w, file)\<close> writes what it read to the response.
\<close>

record os_File =
  contents :: string
  copy_err :: "error option"

definition io_Copy :: "ResponseWriter \<Rightarrow> os_File \<Rightarrow> error option \<times> ResponseWriter" where
  "io_Copy w file = (copy_err file, Write (contents file) w)"

text \<open>Indexing a Go map: a missing key reads as the zero value, the empty string.\<close>

definition index :: "(string \<rightharpoonup> string) \<Rightarrow> string \<Rightarrow> string" where
  "index m k = (case m k of None \<Rightarrow> [] | Some v \<Rightarrow> v)"

text \<open>
  A handler \<open>func(w http.ResponseWriter, r *http.Request)\<close> closed over \<open>mygdb\<close>:
  from the request body, the writer and the session state to the writer and the
  session state after the call.
\<close>

type_synonym 's HandlerFunc = "string \<Rightarrow> ResponseWriter \<Rightarrow> 's \<Rightarrow> ResponseWriter \<times> 's"

subsection \<open>\<open>addThreadHandlers\<close>\<close>

definition handle_thread_listids :: "('p, 'r) json \<Rightarrow> ('s, 'p, 'r) GDB \<Rightarrow> 's HandlerFunc" where
  "handle_thread_listids js mygdb r_Body w s =
     (case ThreadListIds mygdb s of
        (Inl err, s') \<Rightarrow> (Write (Error err) (WriteHeader 400 w), s')
      | (Inr result, s') \<Rightarrow>
          (case Marshal js result of
             Inl err \<Rightarrow> (Write (Error err) (WriteHeader 500 w), s')
           | Inr resultBytes \<Rightarrow> (Write resultBytes (WriteHeader 200 w), s')))"

definition handle_thread_select ::
  "('p, 'r) json \<Rightarrow> 'p gdblib \<Rightarrow> ('s, 'p, 'r) GDB \<Rightarrow> 's HandlerFunc" where
  "handle_thread_select js lib mygdb r_Body w s =
     (case Decode js r_Body (ThreadSelectParms lib) of
        (Some err, parms) \<Rightarrow> (Write (Error err) (WriteHeader 400 w), s)
      | (None, parms) \<Rightarrow>
          (case ThreadSelect mygdb parms s of
             (Inl err, s') \<Rightarrow> (Write (Error err) (WriteHeader 400 w), s')
           | (Inr result, s') \<Rightarrow>
               (case Marshal js result of
                  Inl err \<Rightarrow> (Write (Error err) (WriteHeader 500 w), s')
                | Inr resultBytes \<Rightarrow> (Write resultBytes (WriteHeader 200 w), s'))))"

definition handle_thread_info ::
  "('p, 'r) json \<Rightarrow> 'p gdblib \<Rightarrow> ('s, 'p, 'r) GDB \<Rightarrow> 's HandlerFunc" where
  "handle_thread_info js lib mygdb r_Body w s =
     (case Decode js r_Body (ThreadInfoParms lib) of
        (Some err, parms) \<Rightarrow> (Write (Error err) (WriteHeader 400 w), s)
      | (None, parms) \<Rightarrow>
          (case ThreadInfo mygdb parms s of
             (Inl err, s') \<Rightarrow> (Write (Error err) (WriteHeader 400 w), s')
           | (Inr result, s') \<Rightarrow>
               (case Marshal js result of
                  Inl err \<Rightarrow> (Write (Error err) (WriteHeader 500 w), s')
                | Inr resultBytes \<Rightarrow> (Write resultBytes (WriteHeader 200 w), s'))))"

definition addThreadHandlers ::
  "('p, 'r) json \<Rightarrow> 'p gdblib \<Rightarrow> ('s, 'p, 'r) GDB \<Rightarrow> (string \<times> 's HandlerFunc) list" where
  "addThreadHandlers js lib mygdb =
     [(''/handle/thread/listids'', handle_thread_listids js mygdb),
      (''/handle/thread/select'', handle_thread_select js lib mygdb),
      (''/handle/thread/info'', handle_thread_info js lib mygdb)]"

subsection \<open>\<open>addFrameHandlers\<close>\<close>

definition handle_frame_stackinfo :: "('p, 'r) json \<Rightarrow> ('s, 'p, 'r) GDB \<Rightarrow> 's HandlerFunc" where
  "handle_frame_stackinfo js mygdb r_Body w s =
     (case StackInfoFrame mygdb s of
        (Inl err, s') \<Rightarrow> (Write (Error err) (WriteHeader 400 w), s')
      | (Inr result, s') \<Rightarrow>
          (case Marshal js result of
             Inl err \<Rightarrow> (Write (Error err) (WriteHeader 500 w), s')
           | Inr resultBytes \<Rightarrow> (Write resultBytes (WriteHeader 200 w), s')))"

definition handle_frame_stacklist ::
  "('p, 'r) json \<Rightarrow> 'p gdblib \<Rightarrow> ('s, 'p, 'r) GDB \<Rightarrow> 's HandlerFunc" where
  "handle_frame_stacklist js lib mygdb r_Body w s =
     (case Decode js r_Body (StackListFramesParms lib) of
        (Some err, parms) \<Rightarrow> (Write (Error err) (WriteHeader 400 w), s)
      | (None, parms) \<Rightarrow>
          (case StackListFrames mygdb parms s of
             (Inl err, s') \<Rightarrow> (Write (Error err) (WriteHeader 400 w), s')
           | (Inr result, s') \<Rightarrow>
               (case Marshal js result of
                  Inl err \<Rightarrow> (Write (Error err) (WriteHeader 500 w), s')
                | Inr resultBytes \<Rightarrow> (Write resultBytes (WriteHeader 200 w), s'))))"

definition handle_frame_variableslist ::
  "('p, 'r) json \<Rightarrow> 'p gdblib \<Rightarrow> ('s, 'p, 'r) GDB \<Rightarrow> 's HandlerFunc" where
  "handle_frame_variableslist js lib mygdb r_Body w s =
     (case Decode js r_Body (StackListVariablesParms lib) of
        (Some err, parms) \<Rightarrow> (Write (Error err) (WriteHeader 400 w), s)
      | (None, parms) \<Rightarrow>
          (case StackListVariables mygdb parms s of
             (Inl err, s') \<Rightarrow> (Write (Error err) (WriteHeader 400 w), s')
           | (Inr result, s') \<Rightarrow>
               (case Marshal js result of
                  Inl err \<Rightarrow> (Write (Error err) (WriteHeader 500 w), s')
                | Inr resultBytes \<Rightarrow> (Write resultBytes (WriteHeader 200 w), s'))))"

text \<open>
  \<open>/handle/file/get\<close>: \<open>os_Open\<close> is \<open>os.Open\<close> on the machine's file system. After
  the 200 header a failed copy calls \<open>WriteHeader(500)\<close>, which no longer changes the
  status, and appends the error text.
\<close>

definition handle_file_get ::
  "('p, 'r) json \<Rightarrow> (string \<Rightarrow> error + os_File) \<Rightarrow> 's HandlerFunc" where
  "handle_file_get js os_Open r_Body w s =
     (case DecodeMap js r_Body Map.empty of
        (Some err, parms) \<Rightarrow> (Write (Error err) (WriteHeader 400 w), s)
      | (None, parms) \<Rightarrow>
          (case os_Open (index parms ''File'') of
             Inl err \<Rightarrow> (Write (Error err) (WriteHeader 500 w), s)
           | Inr file \<Rightarrow>
               (case io_Copy (WriteHeader 200 w) file of
                  (Some err, w') \<Rightarrow> (Write (Error err) (WriteHeader 500 w'), s)
                | (None, w') \<Rightarrow> (w', s))))"

definition addFrameHandlers ::
  "('p, 'r) json \<Rightarrow> 'p gdblib \<Rightarrow> (string \<Rightarrow> error + os_File) \<Rightarrow> ('s, 'p, 'r) GDB \<Rightarrow>
   (string \<times> 's HandlerFunc) list" where
  "addFrameHandlers js lib os_Open mygdb =
     [(''/handle/frame/stackinfo'', handle_frame_stackinfo js mygdb),
      (''/handle/frame/stacklist'', handle_frame_stacklist js lib mygdb),
      (''/handle/frame/variableslist'', handle_frame_variableslist js lib mygdb),
      (''/handle/file/get'', handle_file_get js os_Open)]"

subsection \<open>\<open>addExecHandlers\<close>\<close>

text \<open>
  The five handlers share one shape: \<open>if err == nil { err = mygdb.ExecNext(parms) }\<close>
  runs the command only after a decode without error, and one test of \<open>err\<close> then
  answers for both.
\<close>

definition handle_exec_next ::
  "('p, 'r) json \<Rightarrow> 'p gdblib \<Rightarrow> ('s, 'p, 'r) GDB \<Rightarrow> 's HandlerFunc" where
  "handle_exec_next js lib mygdb r_Body w s =
     (case Decode js r_Body (ExecNextParms lib) of
        (err, parms) \<Rightarrow>
          (case (case err of None \<Rightarrow> ExecNext mygdb parms s | Some e \<Rightarrow> (err, s)) of
             (Some err', s') \<Rightarrow> (Write (Error err') (WriteHeader 400 w), s')
           | (None, s') \<Rightarrow> (WriteHeader 200 w, s')))"

definition handle_exec_step ::
  "('p, 'r) json \<Rightarrow> 'p gdblib \<Rightarrow> ('s, 'p, 'r) GDB \<Rightarrow> 's HandlerFunc" where
  "handle_exec_step js lib mygdb r_Body w s =
     (case Decode js r_Body (ExecStepParms lib) of
        (err, parms) \<Rightarrow>
          (case (case err of None \<Rightarrow> ExecStep mygdb parms s | Some e \<Rightarrow> (err, s)) of
             (Some err', s') \<Rightarrow> (Write (Error err') (WriteHeader 400 w), s')
           | (None, s') \<Rightarrow> (WriteHeader 200 w, s')))"

definition handle_exec_continue ::
  "('p, 'r) json \<Rightarrow> 'p gdblib \<Rightarrow> ('s, 'p, 'r) GDB \<Rightarrow> 's HandlerFunc" where
  "handle_exec_continue js lib mygdb r_Body w s =
     (case Decode js r_Body (ExecContinueParms lib) of
        (err, parms) \<Rightarrow>
          (case (case err of None \<Rightarrow> ExecContinue mygdb parms s | Some e \<Rightarrow> (err, s)) of
             (Some err', s') \<Rightarrow> (Write (Error err') (WriteHeader 400 w), s')
           | (None, s') \<Rightarrow> (WriteHeader 200 w, s')))"

definition handle_exec_run ::
  "('p, 'r) json \<Rightarrow> 'p gdblib \<Rightarrow> ('s, 'p, 'r) GDB \<Rightarrow> 's HandlerFunc" where
  "handle_exec_run js lib mygdb r_Body w s =
     (case Decode js r_Body (ExecRunParms lib) of
        (err, parms) \<Rightarrow>
          (case (case err of None \<Rightarrow> ExecRun mygdb parms s | Some e \<Rightarrow> (err, s)) of
             (Some err', s') \<Rightarrow> (Write (Error err') (WriteHeader 400 w), s')
           | (None, s') \<Rightarrow> (WriteHeader 200 w, s')))"

definition handle_exec_interrupt ::
  "('p, 'r) json \<Rightarrow> 'p gdblib \<Rightarrow> ('s, 'p, 'r) GDB \<Rightarrow> 's HandlerFunc" where
  "handle_exec_interrupt js lib mygdb r_Body w s =
     (case Decode js r_Body (ExecInterruptParms lib) of
        (err, parms) \<Rightarrow>
          (case (case err of None \<Rightarrow> ExecInterrupt mygdb parms s | Some e \<Rightarrow> (err, s)) of
             (Some err', s') \<Rightarrow> (Write (Error err') (WriteHeader 400 w), s')
           | (None, s') \<Rightarrow> (WriteHeader 200 w, s')))"

definition addExecHandlers ::
  "('p, 'r) json \<Rightarrow> 'p gdblib \<Rightarrow> ('s, 'p, 'r) GDB \<Rightarrow> (string \<times> 's HandlerFunc) list" where
  "addExecHandlers js lib mygdb =
     [(''/handle/exec/next'', handle_exec_next js lib mygdb),
      (''/handle/exec/step'', handle_exec_step js lib mygdb),
      (''/handle/exec/continue'', handle_exec_continue js lib mygdb),
      (''/handle/exec/run'', handle_exec_run js lib mygdb),
      (''/handle/exec/interrupt'', handle_exec_interrupt js lib mygdb)]"

subsection \<open>\<open>addBreakpointHandlers\<close>\<close>

definition handle_breakpoint_list :: "('p, 'r) json \<Rightarrow> ('s, 'p, 'r) GDB \<Rightarrow> 's HandlerFunc" where
  "handle_breakpoint_list js mygdb r_Body w s =
     (case BreakList mygdb s of
        (Inl err, s') \<Rightarrow> (Write (Error err) (WriteHeader 500 w), s')
      | (Inr result, s') \<Rightarrow>
          (case Marshal js result of
             Inl err \<Rightarrow> (Write (Error err) (WriteHeader 500 w), s')
           | Inr resultBytes \<Rightarrow> (Write resultBytes (WriteHeader 200 w), s')))"

definition handle_breakpoint_insert ::
  "('p, 'r) json \<Rightarrow> 'p gdblib \<Rightarrow> ('s, 'p, 'r) GDB \<Rightarrow> 's HandlerFunc" where
  "handle_breakpoint_insert js lib mygdb r_Body w s =
     (case Decode js r_Body (BreakInsertParms lib) of
        (Some err, parms) \<Rightarrow> (Write (Error err) (WriteHeader 400 w), s)
      | (None, parms) \<Rightarrow>
          (case BreakInsert mygdb parms s of
             (Inl err, s') \<Rightarrow> (Write (Error err) (WriteHeader 400 w), s')
           | (Inr result, s') \<Rightarrow>
               (case Marshal js result of
                  Inl err \<Rightarrow> (Write (Error err) (WriteHeader 500 w), s')
                | Inr resultBytes \<Rightarrow> (Write resultBytes (WriteHeader 200 w), s'))))"

definition handle_breakpoint_enable ::
  "('p, 'r) json \<Rightarrow> 'p gdblib \<Rightarrow> ('s, 'p, 'r) GDB \<Rightarrow> 's HandlerFunc" where
  "handle_breakpoint_enable js lib mygdb r_Body w s =
     (case Decode js r_Body (BreakEnableParms lib) of
        (Some err, parms) \<Rightarrow> (Write (Error err) (WriteHeader 400 w), s)
      | (None, parms) \<Rightarrow>
          (case BreakEnable mygdb parms s of
             (Some err, s') \<Rightarrow> (Write (Error err) (WriteHeader 400 w), s')
           | (None, s') \<Rightarrow> (WriteHeader 200 w, s')))"

definition handle_breakpoint_disable ::
  "('p, 'r) json \<Rightarrow> 'p gdblib \<Rightarrow> ('s, 'p, 'r) GDB \<Rightarrow> 's HandlerFunc" where
  "handle_breakpoint_disable js lib mygdb r_Body w s =
     (case Decode js r_Body (BreakDisableParms lib) of
        (Some err, parms) \<Rightarrow> (Write (Error err) (WriteHeader 400 w), s)
      | (None, parms) \<Rightarrow>
          (case BreakDisable mygdb parms s of
             (Some err, s') \<Rightarrow> (Write (Error err) (WriteHeader 400 w), s')
           | (None, s') \<Rightarrow> (WriteHeader 200 w, s')))"

definition addBreakpointHandlers ::
  "('p, 'r) json \<Rightarrow> 'p gdblib \<Rightarrow> ('s, 'p, 'r) GDB \<Rightarrow> (string \<times> 's HandlerFunc) list" where
  "addBreakpointHandlers js lib mygdb =
     [(''/handle/breakpoint/list'', handle_breakpoint_list js mygdb),
      (''/handle/breakpoint/insert'', handle_breakpoint_insert js lib mygdb),
      (''/handle/breakpoint/enable'', handle_breakpoint_enable js lib mygdb),
      (''/handle/breakpoint/disable'', handle_breakpoint_disable js lib mygdb)]"

subsection \<open>The routes \<open>main\<close> registers\<close>

definition handle_gdb_exit :: "('s, 'p, 'r) GDB \<Rightarrow> 's HandlerFunc" where
  "handle_gdb_exit mygdb r_Body w s = (w, GdbExit mygdb s)"

definition handlers ::
  "('p, 'r) json \<Rightarrow> 'p gdblib \<Rightarrow> (string \<Rightarrow> error + os_File) \<Rightarrow> ('s, 'p, 'r) GDB \<Rightarrow>
   (string \<times> 's HandlerFunc) list" where
  "handlers js lib os_Open mygdb =
     addExecHandlers js lib mygdb @ addBreakpointHandlers js lib mygdb @
     addThreadHandlers js lib mygdb @ addFrameHandlers js lib os_Open mygdb @
     [(''/handle/gdb/exit'', handle_gdb_exit mygdb)]"

subsection \<open>A recording session and a small decoder, for concrete runs\<close>

text \<open>
  A session whose state is the list of the calls made on it, each with the parameter
  value it received (\<open>0\<close> where the operation takes none). Every call answers with
  \<open>outcome\<close>: the error, or the result (for a command, no error).
\<close>

definition record_call ::
  "error + string \<Rightarrow> string \<Rightarrow> nat \<Rightarrow> (string \<times> nat) list \<Rightarrow> (error + string) \<times> (string \<times> nat) list" where
  "record_call outcome op parms s = (outcome, s @ [(op, parms)])"

definition record_command ::
  "error + string \<Rightarrow> string \<Rightarrow> nat \<Rightarrow> (string \<times> nat) list \<Rightarrow> error option \<times> (string \<times> nat) list" where
  "record_command outcome op parms s =
     ((case outcome of Inl err \<Rightarrow> Some err | Inr result \<Rightarrow> None), s @ [(op, parms)])"

definition recording_gdb :: "error + string \<Rightarrow> ((string \<times> nat) list, nat, string) GDB" where
  "recording_gdb outcome =
     \<lparr>ThreadListIds = record_call outcome ''ThreadListIds'' 0,
      ThreadSelect = record_call outcome ''ThreadSelect'',
      ThreadInfo = record_call outcome ''ThreadInfo'',
      StackInfoFrame = record_call outcome ''StackInfoFrame'' 0,
      StackListFrames = record_call outcome ''StackListFrames'',
      StackListVariables = record_call outcome ''StackListVariables'',
      ExecNext = record_command outcome ''ExecNext'',
      ExecStep = record_command outcome ''ExecStep'',
      ExecContinue = record_command outcome ''ExecContinue'',
      ExecRun = record_command outcome ''ExecRun'',
      ExecInterrupt = record_command outcome ''ExecInterrupt'',
      BreakList = record_call outcome ''BreakList'' 0,
      BreakInsert = record_call outcome ''BreakInsert'',
      BreakEnable = record_command outcome ''BreakEnable'',
      BreakDisable = record_command outcome ''BreakDisable'',
      GdbExit = (\<lambda>s. s @ [(''GdbExit'', 0)])\<rparr>"

text \<open>
  Parameter structs as numbers, with \<open>0\<close> for the struct whose fields all hold their
  zero value.
\<close>

definition zero_parms :: "nat gdblib" where
  "zero_parms =
     \<lparr>ThreadSelectParms = 0, ThreadInfoParms = 0, StackListFramesParms = 0,
      StackListVariablesParms = 0, ExecNextParms = 0, ExecStepParms = 0,
      ExecContinueParms = 0, ExecRunParms = 0, ExecInterruptParms = 0,
      BreakInsertParms = 0, BreakEnableParms = 0, BreakDisableParms = 0\<rparr>"

text \<open>
  \<open>encoding/json\<close> on the two request bodies used below. The empty object \<open>{}\<close> is
  valid JSON that names no field: the decoder reports no error and stores nothing, so
  the target keeps the value it had. Every other body is refused here with a syntax
  error, as the truncated body \<open>{\<close> is. \<open>Marshal\<close> fails on the result \<open>NaN\<close> and
  returns every other result as its own text.
\<close>

definition example_json :: "(nat, string) json" where
  "example_json =
     \<lparr>Decode = (\<lambda>r_Body parms.
         if r_Body = ''{}'' then (None, parms)
         else (Some (errors_New ''unexpected EOF''), parms)),
      DecodeMap = (\<lambda>r_Body parms.
         if r_Body = ''{}'' then (None, parms)
         else (Some (errors_New ''unexpected EOF''), parms)),
      Marshal = (\<lambda>result.
         if result = ''NaN'' then Inl (errors_New ''json: unsupported value: NaN'')
         else Inr result)\<rparr>"

text \<open>A file system with one readable file.\<close>

definition example_os_Open :: "string \<Rightarrow> error + os_File" where
  "example_os_Open name =
     (if name = ''/src/main.c'' then Inr \<lparr>contents = ''int main;'', copy_err = None\<rparr>
      else Inl (errors_New (''open '' @ name @ '': no such file or directory'')))"

section \<open>Event multiplexer: the handler of \<open>/output\<close>\<close>

text \<open>
  A value of type \<open>interface{}\<close>: a Go string, or any other value the session sends.
\<close>

datatype 'v any = Str string | Val 'v

text \<open>\<open>type webSockResult struct { Type string; Data interface{} }\<close>\<close>

record 'v webSockResult =
  Type :: string
  Data :: "'v any"

text \<open>
  Time is counted in nanoseconds, as \<open>time.Duration\<close> does; \<open>timeout\<close> is the
  argument \<open>30 * time.Second\<close> of \<open>time.After\<close>.
\<close>

definition Second :: nat where
  "Second = 1000000000"

definition timeout :: nat where
  "timeout = 30 * Second"

text \<open>
  The four channels of the session. A channel is the queue of the values still to be
  received from it, each with the time at which its sender offers it; values leave a
  channel in the order they were sent.
\<close>

record 'v channels =
  Console :: "(nat \<times> 'v any) list"
  Target :: "(nat \<times> 'v any) list"
  InternalLog :: "(nat \<times> 'v any) list"
  AsyncResults :: "(nat \<times> 'v any) list"

text \<open>The five cases of the \<open>select\<close> statement.\<close>

datatype select_case = recv_Console | recv_Target | recv_InternalLog | recv_AsyncResults | recv_After

text \<open>
  What the loop does to the outside, in order: a call \<open>ws.Write(bytes)\<close> with the time
  of the call, the time it has returned by, the envelope the bytes encode and the error
  returned; a \<open>fmt.Printf\<close>; a call \<open>mygdb.GdbExit()\<close>.
\<close>

datatype 'v action =
  WsWrite nat nat "'v webSockResult" string "error option"
| Printf string
| Call_GdbExit

text \<open>
  \<open>json.Marshal\<close> on an envelope and \<open>ws.Write\<close> on the connection \<open>'w\<close>; both
  belong to libraries outside the repository.
\<close>

record ('w, 'v) output_io =
  Marshal_envelope :: "'v webSockResult \<Rightarrow> error + string"
  ws_Write :: "string \<Rightarrow> 'w \<Rightarrow> error option \<times> 'w"

record ('s, 'w, 'v) output_state =
  session :: 's
  chans :: "'v channels"
  ws :: 'w
  now :: nat
  trace :: "'v action list"

text \<open>
  The body the five cases share, for the envelope \<open>{Type: ty, Data: data}\<close>:
  \<^verbatim>\<open>
  bytes, err := json.Marshal(&webSockResult{Type: ty, Data: data})
  if err == nil {
      _, err := ws.Write(bytes)
      if err != nil {
          fmt.Printf("Client disconnect\n")
          mygdb.GdbExit()
      }
  }
  // TODO log the marshalling error
  \<close>
  The body takes the time \<open>dur\<close>.
\<close>

definition deliver ::
  "('w, 'v) output_io \<Rightarrow> ('s, 'p, 'r) GDB \<Rightarrow> string \<Rightarrow> 'v any \<Rightarrow> nat \<Rightarrow>
   ('s, 'w, 'v) output_state \<Rightarrow> ('s, 'w, 'v) output_state" where
  "deliver io mygdb ty data dur st =
     (case Marshal_envelope io \<lparr>Type = ty, Data = data\<rparr> of
        Inl err \<Rightarrow> st\<lparr>now := now st + dur\<rparr>
      | Inr bytes \<Rightarrow>
          (case ws_Write io bytes (ws st) of
             (None, ws') \<Rightarrow>
               st\<lparr>ws := ws', now := now st + dur,
                  trace := trace st @
                    [WsWrite (now st) (now st + dur) \<lparr>Type = ty, Data = data\<rparr> bytes None]\<rparr>
           | (Some err, ws') \<Rightarrow>
               st\<lparr>session := GdbExit mygdb (session st), ws := ws', now := now st + dur,
                  trace := trace st @
                    [WsWrite (now st) (now st + dur) \<lparr>Type = ty, Data = data\<rparr> bytes (Some err),
                     Printf ''Client disconnect\<newline>'', Call_GdbExit]\<rparr>))"

text \<open>
  A \<open>select\<close> entered at time \<open>t\<close>. A receive from a channel can proceed once the
  value at its head is offered (\<open>offer\<close>); the timer made by \<open>time.After\<close> on entry
  fires at \<open>t + timeout\<close>. The statement proceeds at the earliest of these times
  (\<open>wake\<close>), with a case that can proceed then; when several can, any of them.
\<close>

definition offer :: "nat \<Rightarrow> (nat \<times> 'a) list \<Rightarrow> nat option" where
  "offer t q = (case q of [] \<Rightarrow> None | (at, v) # rest \<Rightarrow> Some (max t at))"

definition wake :: "nat \<Rightarrow> 'v channels \<Rightarrow> nat" where
  "wake t ch =
     fold (\<lambda>q m. case offer t q of None \<Rightarrow> m | Some a \<Rightarrow> min a m)
       [Console ch, Target ch, InternalLog ch, AsyncResults ch] (t + timeout)"

text \<open>
  One iteration of \<open>for { select { ... } }\<close>, for the case \<open>c\<close> the statement proceeds
  with and the time \<open>dur\<close> its body takes; \<open>None\<close> when \<open>select\<close> cannot proceed with
  \<open>c\<close>.
\<close>

definition iteration ::
  "('w, 'v) output_io \<Rightarrow> ('s, 'p, 'r) GDB \<Rightarrow> select_case \<times> nat \<Rightarrow>
   ('s, 'w, 'v) output_state \<Rightarrow> ('s, 'w, 'v) output_state option" where
  "iteration io mygdb x st =
     (case x of (c, dur) \<Rightarrow>
       (let t = wake (now st) (chans st) in
        case c of
          recv_Console \<Rightarrow>
            (case Console (chans st) of
               [] \<Rightarrow> None
             | (at, data) # rest \<Rightarrow>
                 if max (now st) at = t
                 then Some (deliver io mygdb ''console'' data dur
                        (st\<lparr>chans := (chans st)\<lparr>Console := rest\<rparr>, now := t\<rparr>))
                 else None)
        | recv_Target \<Rightarrow>
            (case Target (chans st) of
               [] \<Rightarrow> None
             | (at, data) # rest \<Rightarrow>
                 if max (now st) at = t
                 then Some (deliver io mygdb ''target'' data dur
                        (st\<lparr>chans := (chans st)\<lparr>Target := rest\<rparr>, now := t\<rparr>))
                 else None)
        | recv_InternalLog \<Rightarrow>
            (case InternalLog (chans st) of
               [] \<Rightarrow> None
             | (at, data) # rest \<Rightarrow>
                 if max (now st) at = t
                 then Some (deliver io mygdb ''gdb'' data dur
                        (st\<lparr>chans := (chans st)\<lparr>InternalLog := rest\<rparr>, now := t\<rparr>))
                 else None)
        | recv_AsyncResults \<Rightarrow>
            (case AsyncResults (chans st) of
               [] \<Rightarrow> None
             | (at, record) # rest \<Rightarrow>
                 if max (now st) at = t
                 then Some (deliver io mygdb ''async'' record dur
                        (st\<lparr>chans := (chans st)\<lparr>AsyncResults := rest\<rparr>, now := t\<rparr>))
                 else None)
        | recv_After \<Rightarrow>
            if now st + timeout = t
            then Some (deliver io mygdb ''heartbeat'' (Str []) dur (st\<lparr>now := t\<rparr>))
            else None))"

text \<open>
  The loop has no \<open>break\<close> and no \<open>return\<close>, so it never ends by itself. \<open>output_loop\<close>
  gives the state after the iterations of a schedule: the list of the cases \<open>select\<close>
  proceeded with, in order, each with the time its body took. A schedule is followed as
  far as \<open>select\<close> can proceed with its cases.
\<close>

fun output_loop ::
  "('w, 'v) output_io \<Rightarrow> ('s, 'p, 'r) GDB \<Rightarrow> (select_case \<times> nat) list \<Rightarrow>
   ('s, 'w, 'v) output_state \<Rightarrow> ('s, 'w, 'v) output_state" where
  "output_loop io mygdb [] st = st"
| "output_loop io mygdb (x # rest) st =
     (case iteration io mygdb x st of
        None \<Rightarrow> st
      | Some st' \<Rightarrow> output_loop io mygdb rest st')"

text \<open>
  The handler of \<open>/output\<close>, called at time \<open>start\<close> with the connection \<open>conn\<close>: the loop
  from a state in which it has done nothing yet.
\<close>

definition output_handler ::
  "('w, 'v) output_io \<Rightarrow> ('s, 'p, 'r) GDB \<Rightarrow> 's \<Rightarrow> 'v channels \<Rightarrow> 'w \<Rightarrow> nat \<Rightarrow>
   (select_case \<times> nat) list \<Rightarrow> ('s, 'w, 'v) output_state" where
  "output_handler io mygdb s ch conn start schedule =
     output_loop io mygdb schedule
       \<lparr>session = s, chans = ch, ws = conn, now = start, trace = []\<rparr>"

subsection \<open>Reading a run\<close>

text \<open>
  The kind string the specification gives each source, the queue a case receives from,
  the channels after the case has received, and the envelope a case sends when the
  statement proceeds with it.
\<close>

fun kind :: "select_case \<Rightarrow> string" where
  "kind recv_Console = ''console''"
| "kind recv_Target = ''target''"
| "kind recv_InternalLog = ''gdb''"
| "kind recv_AsyncResults = ''async''"
| "kind recv_After = ''heartbeat''"

fun chan_of :: "select_case \<Rightarrow> 'v channels \<Rightarrow> (nat \<times> 'v any) list" where
  "chan_of recv_Console ch = Console ch"
| "chan_of recv_Target ch = Target ch"
| "chan_of recv_InternalLog ch = InternalLog ch"
| "chan_of recv_AsyncResults ch = AsyncResults ch"
| "chan_of recv_After ch = []"

fun after_recv :: "select_case \<Rightarrow> 'v channels \<Rightarrow> 'v channels" where
  "after_recv recv_Console ch = ch\<lparr>Console := tl (Console ch)\<rparr>"
| "after_recv recv_Target ch = ch\<lparr>Target := tl (Target ch)\<rparr>"
| "after_recv recv_InternalLog ch = ch\<lparr>InternalLog := tl (InternalLog ch)\<rparr>"
| "after_recv recv_AsyncResults ch = ch\<lparr>AsyncResults := tl (AsyncResults ch)\<rparr>"
| "after_recv recv_After ch = ch"

fun envelope_of :: "select_case \<Rightarrow> 'v channels \<Rightarrow> 'v webSockResult option" where
  "envelope_of recv_After ch = Some \<lparr>Type = ''heartbeat'', Data = Str []\<rparr>"
| "envelope_of c ch =
     (case chan_of c ch of
        [] \<Rightarrow> None
      | (at, data) # rest \<Rightarrow> Some \<lparr>Type = kind c, Data = data\<rparr>)"

text \<open>
  The writes of a trace that carry envelopes of one type: the payload and the bytes
  handed to \<open>ws.Write\<close>, in the order of the calls.
\<close>

fun written :: "string \<Rightarrow> 'v action list \<Rightarrow> ('v any \<times> string) list" where
  "written ty [] = []"
| "written ty (WsWrite called returned env bytes err # tr) =
     (if Type env = ty then (Data env, bytes) # written ty tr else written ty tr)"
| "written ty (Printf text # tr) = written ty tr"
| "written ty (Call_GdbExit # tr) = written ty tr"





subsection \<open>A client that is gone, for concrete runs\<close>

text \<open>
  An encoder that writes a string payload after its type and fails on every other
  payload, and a connection that counts the calls of \<open>ws.Write\<close> and lets a write
  succeed as long as fewer than \<open>alive\<close> calls came before.
\<close>

definition example_io :: "nat \<Rightarrow> (nat, unit) output_io" where
  "example_io alive =
     \<lparr>Marshal_envelope = (\<lambda>env.
         case Data env of
           Str text \<Rightarrow> Inr (Type env @ '':'' @ text)
         | Val v \<Rightarrow> Inl (errors_New ''json: unsupported type'')),
      ws_Write = (\<lambda>bytes calls.
         (if calls < alive then None else Some (errors_New ''broken pipe''), calls + 1))\<rparr>"

text \<open>
  Channels for three runs: two sources whose events interleave; a diagnostic value the
  encoder refuses, followed by one it accepts; and a single console event.
\<close>

definition interleaved_chans :: "unit channels" where
  "interleaved_chans =
     \<lparr>Console = [(0, Str ''a''), (5, Str ''b'')], Target = [(1, Str ''x'')],
      InternalLog = [], AsyncResults = []\<rparr>"

definition refused_chans :: "unit channels" where
  "refused_chans =
     \<lparr>Console = [], Target = [], InternalLog = [(0, Val ()), (0, Str ''later'')],
      AsyncResults = []\<rparr>"




section \<open>Properties of the resource resolver\<close>

text \<open>
  The loop started at index \<open>i\<close> returns the file of the first provider from \<open>i\<close> on that
  opens the name, and the error of the provider at the last index when none does.
\<close>

lemma Open_loop_first:
  "i \<le> k \<Longrightarrow> k < length fsl \<Longrightarrow> (fsl ! k) name = Inr f \<Longrightarrow>
   (\<forall>j. i \<le> j \<and> j < k \<longrightarrow> isl ((fsl ! j) name)) \<Longrightarrow>
   lastIdx = int (length fsl) - 1 \<Longrightarrow>
   Open_loop fsl lastIdx i name = Inr (noReaddirFile f)"
proof (induction fsl lastIdx i name rule: Open_loop.induct)
  case (1 fsl lastIdx i name)
  show ?case
  proof (cases "i = k")
    case True
    with "1.prems" show ?thesis by (simp add: Open_loop.simps)
  next
    case False
    with "1.prems" have ik: "i < k" by simp
    with "1.prems" have fail: "isl ((fsl ! i) name)" by simp
    then obtain err where err: "(fsl ! i) name = Inl err" by (cases "(fsl ! i) name") auto
    from ik "1.prems" have notlast: "int i \<noteq> lastIdx" by simp
    from ik "1.prems" have il: "i < length fsl" by simp
    have "Open_loop fsl lastIdx (i + 1) name = Inr (noReaddirFile f)"
      using "1.IH" [OF il err notlast] ik "1.prems" by simp
    then show ?thesis using il err notlast by (simp add: Open_loop.simps [of fsl lastIdx i])
  qed
qed

lemma Open_loop_all_fail:
  "i < length fsl \<Longrightarrow> (\<forall>j. i \<le> j \<and> j < length fsl \<longrightarrow> isl ((fsl ! j) name)) \<Longrightarrow>
   lastIdx = int (length fsl) - 1 \<Longrightarrow>
   Open_loop fsl lastIdx i name = Inl (projl ((fsl ! (length fsl - 1)) name))"
proof (induction fsl lastIdx i name rule: Open_loop.induct)
  case (1 fsl lastIdx i name)
  from "1.prems" have fail: "isl ((fsl ! i) name)" by simp
  then obtain err where err: "(fsl ! i) name = Inl err" by (cases "(fsl ! i) name") auto
  show ?case
  proof (cases "int i = lastIdx")
    case True
    have step: "Open_loop fsl lastIdx i name = Inl err"
      using True err "1.prems"(1) by (simp add: Open_loop.simps [of fsl lastIdx i])
    from True "1.prems" have "i = length fsl - 1" by simp
    with err step show ?thesis by simp
  next
    case False
    with "1.prems" have lt: "i + 1 < length fsl" by simp
    have "Open_loop fsl lastIdx (i + 1) name = Inl (projl ((fsl ! (length fsl - 1)) name))"
      using "1.IH" [OF "1.prems"(1) err False lt] "1.prems" by simp
    then show ?thesis using "1.prems"(1) err False by (simp add: Open_loop.simps [of fsl lastIdx i])
  qed
qed


text \<open>
  C3: for every provider list and every asset name, \<open>Open\<close> returns the (wrapped) handle
  of the first provider in list order that opens the name; if every provider of the list
  fails, the error returned is exactly the error of the last provider. A list without
  providers has no last provider: there \<open>Open\<close> returns its own error.
\<close>

theorem Open_first_match_last_error:
  "(\<forall>k f. k < length (fs cfs) \<and> (fs cfs ! k) name = Inr f \<and>
           (\<forall>j<k. isl ((fs cfs ! j) name))
        \<longrightarrow> Open cfs name = Inr (noReaddirFile f)) \<and>
   (\<forall>err. fs cfs \<noteq> [] \<and> (\<forall>p \<in> set (fs cfs). isl (p name)) \<and>
           last (fs cfs) name = Inl err
        \<longrightarrow> Open cfs name = Inl err) \<and>
   (fs cfs = [] \<longrightarrow> Open cfs name = Inl (errors_New ''Algorithm failure''))"
proof (intro conjI allI impI)
  fix k f
  assume h: "k < length (fs cfs) \<and> (fs cfs ! k) name = Inr f \<and>
             (\<forall>j<k. isl ((fs cfs ! j) name))"
  then show "Open cfs name = Inr (noReaddirFile f)"
    using Open_loop_first [of 0 k "fs cfs" name f "int (length (fs cfs)) - 1"]
    by (simp add: Open_def)
next
  fix err
  assume h: "fs cfs \<noteq> [] \<and> (\<forall>p \<in> set (fs cfs). isl (p name)) \<and>
             last (fs cfs) name = Inl err"
  then have ne: "0 < length (fs cfs)" by simp
  from h have all: "\<forall>j. 0 \<le> j \<and> j < length (fs cfs) \<longrightarrow> isl ((fs cfs ! j) name)"
    by simp
  from h have "fs cfs \<noteq> []" and lasterr: "last (fs cfs) name = Inl err" by simp_all
  then have "(fs cfs ! (length (fs cfs) - 1)) name = Inl err"
    using last_conv_nth [of "fs cfs"] by simp
  then show "Open cfs name = Inl err"
    using Open_loop_all_fail [OF ne all, of "int (length (fs cfs)) - 1"]
    by (simp add: Open_def)
next
  assume "fs cfs = []"
  then show "Open cfs name = Inl (errors_New ''Algorithm failure'')"
    by (simp add: Open_def Open_loop.simps)
qed

theorem Open_first_match_last_error_witness:
  "Open \<lparr>fs = [bundleA, bundleB]\<rparr> ''x'' =
     Inr (noReaddirFile \<lparr>file_data = ''B'', dirents = [''p'', ''q'']\<rparr>) \<and>
   Open \<lparr>fs = [bundleA, bundleB]\<rparr> ''y'' = Inl (errors_New ''B: no such file'') \<and>
   Open \<lparr>fs = []\<rparr> ''x'' = Inl (errors_New ''Algorithm failure'')"
proof -
  have "Suc 0 < length (fs \<lparr>fs = [bundleA, bundleB]\<rparr>) \<and>
        (fs \<lparr>fs = [bundleA, bundleB]\<rparr> ! Suc 0) ''x'' =
          Inr \<lparr>file_data = ''B'', dirents = [''p'', ''q'']\<rparr> \<and>
        (\<forall>j<Suc 0. isl ((fs \<lparr>fs = [bundleA, bundleB]\<rparr> ! j) ''x''))"
    by (simp add: bundleA_def bundleB_def)
  with Open_first_match_last_error [of "\<lparr>fs = [bundleA, bundleB]\<rparr>" "''x''"]
  have found: "Open \<lparr>fs = [bundleA, bundleB]\<rparr> ''x'' =
      Inr (noReaddirFile \<lparr>file_data = ''B'', dirents = [''p'', ''q'']\<rparr>)"
    by blast
  have "fs \<lparr>fs = [bundleA, bundleB]\<rparr> \<noteq> [] \<and>
        (\<forall>p \<in> set (fs \<lparr>fs = [bundleA, bundleB]\<rparr>). isl (p ''y'')) \<and>
        last (fs \<lparr>fs = [bundleA, bundleB]\<rparr>) ''y'' = Inl (errors_New ''B: no such file'')"
    by (simp add: bundleA_def bundleB_def)
  with Open_first_match_last_error [of "\<lparr>fs = [bundleA, bundleB]\<rparr>" "''y''"]
  have missing: "Open \<lparr>fs = [bundleA, bundleB]\<rparr> ''y'' = Inl (errors_New ''B: no such file'')"
    by blast
  have "fs \<lparr>fs = []\<rparr> = []" by simp
  with Open_first_match_last_error [of "\<lparr>fs = []\<rparr>" "''x''"]
  have none: "Open \<lparr>fs = []\<rparr> ''x'' = Inl (errors_New ''Algorithm failure'')"
    by blast
  from found missing none show ?thesis by simp
qed

text \<open>
  C9: every handle the resolver returns reports no entries and no error on \<open>Readdir\<close>,
  for every count, whatever directory entries the wrapped provider file has.
\<close>

theorem Readdir_no_entries:
  "Readdir (noReaddirFile f) count = ([], None) \<and>
   (Open cfs name = Inr h \<longrightarrow> Readdir h count = ([], None))"
  by (simp add: Readdir_def)

theorem Readdir_no_entries_witness:
  "Open \<lparr>fs = [bundleA, bundleB]\<rparr> ''x'' = Inr (noReaddirFile \<lparr>file_data = ''B'', dirents = [''p'', ''q'']\<rparr>) \<and>
   Readdir (noReaddirFile \<lparr>file_data = ''B'', dirents = [''p'', ''q'']\<rparr>) (-1) = ([], None)"
proof -
  have o: "Open \<lparr>fs = [bundleA, bundleB]\<rparr> ''x'' = Inr (noReaddirFile \<lparr>file_data = ''B'', dirents = [''p'', ''q'']\<rparr>)"
    by (simp add: Open_def Open_loop.simps bundleA_def bundleB_def)
  with Readdir_no_entries [of "\<lparr>file_data = ''B'', dirents = [''p'', ''q'']\<rparr>" "-1" "\<lparr>fs = [bundleA, bundleB]\<rparr>" "''x''"
      "noReaddirFile \<lparr>file_data = ''B'', dirents = [''p'', ''q'']\<rparr>"]
  show ?thesis by simp
qed

section \<open>Properties of the command dispatcher\<close>

text \<open>The routes under \<open>/handle/\<close>, in the order \<open>main\<close> registers them.\<close>

lemma handlers_paths:
  "map fst (handlers js lib os_Open mygdb) =
     [''/handle/exec/next'', ''/handle/exec/step'', ''/handle/exec/continue'',
      ''/handle/exec/run'', ''/handle/exec/interrupt'',
      ''/handle/breakpoint/list'', ''/handle/breakpoint/insert'',
      ''/handle/breakpoint/enable'', ''/handle/breakpoint/disable'',
      ''/handle/thread/listids'', ''/handle/thread/select'', ''/handle/thread/info'',
      ''/handle/frame/stackinfo'', ''/handle/frame/stacklist'',
      ''/handle/frame/variableslist'', ''/handle/file/get'', ''/handle/gdb/exit'']"
  by (simp add: handlers_def addExecHandlers_def addBreakpointHandlers_def
      addThreadHandlers_def addFrameHandlers_def)

lemma respond_fresh:
  "Write text (WriteHeader code NewResponseWriter) = \<lparr>status = Some code, body = text\<rparr>"
  by (simp add: Write_def WriteHeader_def NewResponseWriter_def)

lemma header_fresh:
  "WriteHeader code NewResponseWriter = \<lparr>status = Some code, body = []\<rparr>"
  by (simp add: WriteHeader_def NewResponseWriter_def)

lemma Write_after_header:
  "Write text \<lparr>status = Some code, body = sent\<rparr> = \<lparr>status = Some code, body = sent @ text\<rparr>"
  by (simp add: Write_def WriteHeader_def)

text \<open>
  C2: at every endpoint that decodes a request body, a decoding error is answered with
  status 400 and the decode error's text as the body, and the session is left exactly
  as it was, whatever the bound operation would do: the operation is not invoked.
\<close>

theorem decode_failure_400:
  "(Decode js b (ThreadSelectParms lib) = (Some e, p) \<longrightarrow>
      handle_thread_select js lib mygdb b NewResponseWriter s = (\<lparr>status = Some 400, body = Error e\<rparr>, s)) \<and>
   (Decode js b (ThreadInfoParms lib) = (Some e, p) \<longrightarrow>
      handle_thread_info js lib mygdb b NewResponseWriter s = (\<lparr>status = Some 400, body = Error e\<rparr>, s)) \<and>
   (Decode js b (StackListFramesParms lib) = (Some e, p) \<longrightarrow>
      handle_frame_stacklist js lib mygdb b NewResponseWriter s = (\<lparr>status = Some 400, body = Error e\<rparr>, s)) \<and>
   (Decode js b (StackListVariablesParms lib) = (Some e, p) \<longrightarrow>
      handle_frame_variableslist js lib mygdb b NewResponseWriter s = (\<lparr>status = Some 400, body = Error e\<rparr>, s)) \<and>
   (DecodeMap js b Map.empty = (Some e, m) \<longrightarrow>
      handle_file_get js os_Open b NewResponseWriter s = (\<lparr>status = Some 400, body = Error e\<rparr>, s)) \<and>
   (Decode js b (ExecNextParms lib) = (Some e, p) \<longrightarrow>
      handle_exec_next js lib mygdb b NewResponseWriter s = (\<lparr>status = Some 400, body = Error e\<rparr>, s)) \<and>
   (Decode js b (ExecStepParms lib) = (Some e, p) \<longrightarrow>
      handle_exec_step js lib mygdb b NewResponseWriter s = (\<lparr>status = Some 400, body = Error e\<rparr>, s)) \<and>
   (Decode js b (ExecContinueParms lib) = (Some e, p) \<longrightarrow>
      handle_exec_continue js lib mygdb b NewResponseWriter s = (\<lparr>status = Some 400, body = Error e\<rparr>, s)) \<and>
   (Decode js b (ExecRunParms lib) = (Some e, p) \<longrightarrow>
      handle_exec_run js lib mygdb b NewResponseWriter s = (\<lparr>status = Some 400, body = Error e\<rparr>, s)) \<and>
   (Decode js b (ExecInterruptParms lib) = (Some e, p) \<longrightarrow>
      handle_exec_interrupt js lib mygdb b NewResponseWriter s = (\<lparr>status = Some 400, body = Error e\<rparr>, s)) \<and>
   (Decode js b (BreakInsertParms lib) = (Some e, p) \<longrightarrow>
      handle_breakpoint_insert js lib mygdb b NewResponseWriter s = (\<lparr>status = Some 400, body = Error e\<rparr>, s)) \<and>
   (Decode js b (BreakEnableParms lib) = (Some e, p) \<longrightarrow>
      handle_breakpoint_enable js lib mygdb b NewResponseWriter s = (\<lparr>status = Some 400, body = Error e\<rparr>, s)) \<and>
   (Decode js b (BreakDisableParms lib) = (Some e, p) \<longrightarrow>
      handle_breakpoint_disable js lib mygdb b NewResponseWriter s = (\<lparr>status = Some 400, body = Error e\<rparr>, s))"
  by (simp add: respond_fresh handle_thread_select_def handle_thread_info_def
      handle_frame_stacklist_def handle_frame_variableslist_def handle_file_get_def
      handle_exec_next_def handle_exec_step_def handle_exec_continue_def handle_exec_run_def
      handle_exec_interrupt_def handle_breakpoint_insert_def handle_breakpoint_enable_def
      handle_breakpoint_disable_def)


theorem decode_failure_400_witness:
  "handle_thread_select example_json zero_parms (recording_gdb (Inr ''ok'')) ''{'' NewResponseWriter [] =
     (\<lparr>status = Some 400, body = ''unexpected EOF''\<rparr>, []) \<and>
   handle_thread_info example_json zero_parms (recording_gdb (Inr ''ok'')) ''{'' NewResponseWriter [] =
     (\<lparr>status = Some 400, body = ''unexpected EOF''\<rparr>, []) \<and>
   handle_frame_stacklist example_json zero_parms (recording_gdb (Inr ''ok'')) ''{'' NewResponseWriter [] =
     (\<lparr>status = Some 400, body = ''unexpected EOF''\<rparr>, []) \<and>
   handle_frame_variableslist example_json zero_parms (recording_gdb (Inr ''ok'')) ''{'' NewResponseWriter [] =
     (\<lparr>status = Some 400, body = ''unexpected EOF''\<rparr>, []) \<and>
   handle_exec_next example_json zero_parms (recording_gdb (Inr ''ok'')) ''{'' NewResponseWriter [] =
     (\<lparr>status = Some 400, body = ''unexpected EOF''\<rparr>, []) \<and>
   handle_exec_step example_json zero_parms (recording_gdb (Inr ''ok'')) ''{'' NewResponseWriter [] =
     (\<lparr>status = Some 400, body = ''unexpected EOF''\<rparr>, []) \<and>
   handle_exec_continue example_json zero_parms (recording_gdb (Inr ''ok'')) ''{'' NewResponseWriter [] =
     (\<lparr>status = Some 400, body = ''unexpected EOF''\<rparr>, []) \<and>
   handle_exec_run example_json zero_parms (recording_gdb (Inr ''ok'')) ''{'' NewResponseWriter [] =
     (\<lparr>status = Some 400, body = ''unexpected EOF''\<rparr>, []) \<and>
   handle_exec_interrupt example_json zero_parms (recording_gdb (Inr ''ok'')) ''{'' NewResponseWriter [] =
     (\<lparr>status = Some 400, body = ''unexpected EOF''\<rparr>, []) \<and>
   handle_breakpoint_insert example_json zero_parms (recording_gdb (Inr ''ok'')) ''{'' NewResponseWriter [] =
     (\<lparr>status = Some 400, body = ''unexpected EOF''\<rparr>, []) \<and>
   handle_breakpoint_enable example_json zero_parms (recording_gdb (Inr ''ok'')) ''{'' NewResponseWriter [] =
     (\<lparr>status = Some 400, body = ''unexpected EOF''\<rparr>, []) \<and>
   handle_breakpoint_disable example_json zero_parms (recording_gdb (Inr ''ok'')) ''{'' NewResponseWriter [] =
     (\<lparr>status = Some 400, body = ''unexpected EOF''\<rparr>, []) \<and>
   handle_file_get example_json example_os_Open ''{'' NewResponseWriter ([] :: (string \<times> nat) list) =
     (\<lparr>status = Some 400, body = ''unexpected EOF''\<rparr>, [])"
  using decode_failure_400 [where js = example_json and b = "''{''" and lib = zero_parms
      and e = "errors_New ''unexpected EOF''" and p = 0
      and mygdb = "recording_gdb (Inr ''ok'')" and s = "[]" and m = Map.empty
      and os_Open = example_os_Open]
  by (simp add: example_json_def zero_parms_def)


text \<open>
  C7: at every endpoint whose operation returns data, once the operation has succeeded
  with a result, an encoding error is answered with status 500 and the encoding error's
  text, and an encoding without error with status 200 and the encoded bytes.
\<close>

theorem encode_result_500_or_200:
  "(fst (ThreadListIds mygdb s) = Inr result \<longrightarrow>
      handle_thread_listids js mygdb b NewResponseWriter s =
        ((case Marshal js result of
           Inl e \<Rightarrow> \<lparr>status = Some 500, body = Error e\<rparr>
         | Inr resultBytes \<Rightarrow> \<lparr>status = Some 200, body = resultBytes\<rparr>),
         snd (ThreadListIds mygdb s))) \<and>
   (fst (StackInfoFrame mygdb s) = Inr result \<longrightarrow>
      handle_frame_stackinfo js mygdb b NewResponseWriter s =
        ((case Marshal js result of
           Inl e \<Rightarrow> \<lparr>status = Some 500, body = Error e\<rparr>
         | Inr resultBytes \<Rightarrow> \<lparr>status = Some 200, body = resultBytes\<rparr>),
         snd (StackInfoFrame mygdb s))) \<and>
   (fst (BreakList mygdb s) = Inr result \<longrightarrow>
      handle_breakpoint_list js mygdb b NewResponseWriter s =
        ((case Marshal js result of
           Inl e \<Rightarrow> \<lparr>status = Some 500, body = Error e\<rparr>
         | Inr resultBytes \<Rightarrow> \<lparr>status = Some 200, body = resultBytes\<rparr>),
         snd (BreakList mygdb s))) \<and>
   (Decode js b (ThreadSelectParms lib) = (None, p) \<and> fst (ThreadSelect mygdb p s) = Inr result \<longrightarrow>
      handle_thread_select js lib mygdb b NewResponseWriter s =
        ((case Marshal js result of
           Inl e \<Rightarrow> \<lparr>status = Some 500, body = Error e\<rparr>
         | Inr resultBytes \<Rightarrow> \<lparr>status = Some 200, body = resultBytes\<rparr>),
         snd (ThreadSelect mygdb p s))) \<and>
   (Decode js b (ThreadInfoParms lib) = (None, p) \<and> fst (ThreadInfo mygdb p s) = Inr result \<longrightarrow>
      handle_thread_info js lib mygdb b NewResponseWriter s =
        ((case Marshal js result of
           Inl e \<Rightarrow> \<lparr>status = Some 500, body = Error e\<rparr>
         | Inr resultBytes \<Rightarrow> \<lparr>status = Some 200, body = resultBytes\<rparr>),
         snd (ThreadInfo mygdb p s))) \<and>
   (Decode js b (StackListFramesParms lib) = (None, p) \<and> fst (StackListFrames mygdb p s) = Inr result \<longrightarrow>
      handle_frame_stacklist js lib mygdb b NewResponseWriter s =
        ((case Marshal js result of
           Inl e \<Rightarrow> \<lparr>status = Some 500, body = Error e\<rparr>
         | Inr resultBytes \<Rightarrow> \<lparr>status = Some 200, body = resultBytes\<rparr>),
         snd (StackListFrames mygdb p s))) \<and>
   (Decode js b (StackListVariablesParms lib) = (None, p) \<and> fst (StackListVariables mygdb p s) = Inr result \<longrightarrow>
      handle_frame_variableslist js lib mygdb b NewResponseWriter s =
        ((case Marshal js result of
           Inl e \<Rightarrow> \<lparr>status = Some 500, body = Error e\<rparr>
         | Inr resultBytes \<Rightarrow> \<lparr>status = Some 200, body = resultBytes\<rparr>),
         snd (StackListVariables mygdb p s))) \<and>
   (Decode js b (BreakInsertParms lib) = (None, p) \<and> fst (BreakInsert mygdb p s) = Inr result \<longrightarrow>
      handle_breakpoint_insert js lib mygdb b NewResponseWriter s =
        ((case Marshal js result of
           Inl e \<Rightarrow> \<lparr>status = Some 500, body = Error e\<rparr>
         | Inr resultBytes \<Rightarrow> \<lparr>status = Some 200, body = resultBytes\<rparr>),
         snd (BreakInsert mygdb p s)))"
  by (simp add: respond_fresh handle_thread_listids_def handle_thread_select_def handle_thread_info_def
      handle_frame_stackinfo_def handle_frame_stacklist_def handle_frame_variableslist_def
      handle_file_get_def handle_exec_next_def handle_exec_step_def handle_exec_continue_def
      handle_exec_run_def handle_exec_interrupt_def handle_breakpoint_list_def
      handle_breakpoint_insert_def handle_breakpoint_enable_def handle_breakpoint_disable_def split: sum.splits prod.splits)

theorem encode_result_500_or_200_witness:
  "handle_thread_listids example_json (recording_gdb (Inr ''NaN'')) ''{}'' NewResponseWriter [] =
     (\<lparr>status = Some 500, body = ''json: unsupported value: NaN''\<rparr>, [(''ThreadListIds'', 0)]) \<and>
   handle_frame_stackinfo example_json (recording_gdb (Inr ''NaN'')) ''{}'' NewResponseWriter [] =
     (\<lparr>status = Some 500, body = ''json: unsupported value: NaN''\<rparr>, [(''StackInfoFrame'', 0)]) \<and>
   handle_breakpoint_list example_json (recording_gdb (Inr ''NaN'')) ''{}'' NewResponseWriter [] =
     (\<lparr>status = Some 500, body = ''json: unsupported value: NaN''\<rparr>, [(''BreakList'', 0)]) \<and>
   handle_thread_select example_json zero_parms (recording_gdb (Inr ''NaN'')) ''{}'' NewResponseWriter [] =
     (\<lparr>status = Some 500, body = ''json: unsupported value: NaN''\<rparr>, [(''ThreadSelect'', 0)]) \<and>
   handle_thread_info example_json zero_parms (recording_gdb (Inr ''NaN'')) ''{}'' NewResponseWriter [] =
     (\<lparr>status = Some 500, body = ''json: unsupported value: NaN''\<rparr>, [(''ThreadInfo'', 0)]) \<and>
   handle_frame_stacklist example_json zero_parms (recording_gdb (Inr ''NaN'')) ''{}'' NewResponseWriter [] =
     (\<lparr>status = Some 500, body = ''json: unsupported value: NaN''\<rparr>, [(''StackListFrames'', 0)]) \<and>
   handle_frame_variableslist example_json zero_parms (recording_gdb (Inr ''NaN'')) ''{}'' NewResponseWriter [] =
     (\<lparr>status = Some 500, body = ''json: unsupported value: NaN''\<rparr>, [(''StackListVariables'', 0)]) \<and>
   handle_breakpoint_insert example_json zero_parms (recording_gdb (Inr ''NaN'')) ''{}'' NewResponseWriter [] =
     (\<lparr>status = Some 500, body = ''json: unsupported value: NaN''\<rparr>, [(''BreakInsert'', 0)]) \<and>
   handle_thread_listids example_json (recording_gdb (Inr ''[1,2]'')) ''{}'' NewResponseWriter [] =
     (\<lparr>status = Some 200, body = ''[1,2]''\<rparr>, [(''ThreadListIds'', 0)]) \<and>
   handle_frame_stackinfo example_json (recording_gdb (Inr ''[1,2]'')) ''{}'' NewResponseWriter [] =
     (\<lparr>status = Some 200, body = ''[1,2]''\<rparr>, [(''StackInfoFrame'', 0)]) \<and>
   handle_breakpoint_list example_json (recording_gdb (Inr ''[1,2]'')) ''{}'' NewResponseWriter [] =
     (\<lparr>status = Some 200, body = ''[1,2]''\<rparr>, [(''BreakList'', 0)]) \<and>
   handle_thread_select example_json zero_parms (recording_gdb (Inr ''[1,2]'')) ''{}'' NewResponseWriter [] =
     (\<lparr>status = Some 200, body = ''[1,2]''\<rparr>, [(''ThreadSelect'', 0)]) \<and>
   handle_thread_info example_json zero_parms (recording_gdb (Inr ''[1,2]'')) ''{}'' NewResponseWriter [] =
     (\<lparr>status = Some 200, body = ''[1,2]''\<rparr>, [(''ThreadInfo'', 0)]) \<and>
   handle_frame_stacklist example_json zero_parms (recording_gdb (Inr ''[1,2]'')) ''{}'' NewResponseWriter [] =
     (\<lparr>status = Some 200, body = ''[1,2]''\<rparr>, [(''StackListFrames'', 0)]) \<and>
   handle_frame_variableslist example_json zero_parms (recording_gdb (Inr ''[1,2]'')) ''{}'' NewResponseWriter [] =
     (\<lparr>status = Some 200, body = ''[1,2]''\<rparr>, [(''StackListVariables'', 0)]) \<and>
   handle_breakpoint_insert example_json zero_parms (recording_gdb (Inr ''[1,2]'')) ''{}'' NewResponseWriter [] =
     (\<lparr>status = Some 200, body = ''[1,2]''\<rparr>, [(''BreakInsert'', 0)])"
  using encode_result_500_or_200 [where js = example_json and lib = zero_parms and b = "''{}''"
      and mygdb = "recording_gdb (Inr ''NaN'')" and s = "[]" and p = 0 and result = "''NaN''"]
    encode_result_500_or_200 [where js = example_json and lib = zero_parms and b = "''{}''"
      and mygdb = "recording_gdb (Inr ''[1,2]'')" and s = "[]" and p = 0 and result = "''[1,2]''"]
  by (simp add: example_json_def zero_parms_def recording_gdb_def record_call_def)

text \<open>
  At every endpoint bound to a session operation other than \<open>/handle/breakpoint/list\<close>,
  an error of the operation (after a decode without error, where the endpoint decodes) is
  answered with status 400 and the error's text.
\<close>

theorem backend_error_400:
  "(fst (ThreadListIds mygdb s) = Inl e \<longrightarrow>
      handle_thread_listids js mygdb b NewResponseWriter s = (\<lparr>status = Some 400, body = Error e\<rparr>, snd (ThreadListIds mygdb s))) \<and>
   (fst (StackInfoFrame mygdb s) = Inl e \<longrightarrow>
      handle_frame_stackinfo js mygdb b NewResponseWriter s = (\<lparr>status = Some 400, body = Error e\<rparr>, snd (StackInfoFrame mygdb s))) \<and>
   (Decode js b (ThreadSelectParms lib) = (None, p) \<and> fst (ThreadSelect mygdb p s) = Inl e \<longrightarrow>
      handle_thread_select js lib mygdb b NewResponseWriter s = (\<lparr>status = Some 400, body = Error e\<rparr>, snd (ThreadSelect mygdb p s))) \<and>
   (Decode js b (ThreadInfoParms lib) = (None, p) \<and> fst (ThreadInfo mygdb p s) = Inl e \<longrightarrow>
      handle_thread_info js lib mygdb b NewResponseWriter s = (\<lparr>status = Some 400, body = Error e\<rparr>, snd (ThreadInfo mygdb p s))) \<and>
   (Decode js b (StackListFramesParms lib) = (None, p) \<and> fst (StackListFrames mygdb p s) = Inl e \<longrightarrow>
      handle_frame_stacklist js lib mygdb b NewResponseWriter s = (\<lparr>status = Some 400, body = Error e\<rparr>, snd (StackListFrames mygdb p s))) \<and>
   (Decode js b (StackListVariablesParms lib) = (None, p) \<and> fst (StackListVariables mygdb p s) = Inl e \<longrightarrow>
      handle_frame_variableslist js lib mygdb b NewResponseWriter s = (\<lparr>status = Some 400, body = Error e\<rparr>, snd (StackListVariables mygdb p s))) \<and>
   (Decode js b (BreakInsertParms lib) = (None, p) \<and> fst (BreakInsert mygdb p s) = Inl e \<longrightarrow>
      handle_breakpoint_insert js lib mygdb b NewResponseWriter s = (\<lparr>status = Some 400, body = Error e\<rparr>, snd (BreakInsert mygdb p s))) \<and>
   (Decode js b (ExecNextParms lib) = (None, p) \<and> fst (ExecNext mygdb p s) = Some e \<longrightarrow>
      handle_exec_next js lib mygdb b NewResponseWriter s = (\<lparr>status = Some 400, body = Error e\<rparr>, snd (ExecNext mygdb p s))) \<and>
   (Decode js b (ExecStepParms lib) = (None, p) \<and> fst (ExecStep mygdb p s) = Some e \<longrightarrow>
      handle_exec_step js lib mygdb b NewResponseWriter s = (\<lparr>status = Some 400, body = Error e\<rparr>, snd (ExecStep mygdb p s))) \<and>
   (Decode js b (ExecContinueParms lib) = (None, p) \<and> fst (ExecContinue mygdb p s) = Some e \<longrightarrow>
      handle_exec_continue js lib mygdb b NewResponseWriter s = (\<lparr>status = Some 400, body = Error e\<rparr>, snd (ExecContinue mygdb p s))) \<and>
   (Decode js b (ExecRunParms lib) = (None, p) \<and> fst (ExecRun mygdb p s) = Some e \<longrightarrow>
      handle_exec_run js lib mygdb b NewResponseWriter s = (\<lparr>status = Some 400, body = Error e\<rparr>, snd (ExecRun mygdb p s))) \<and>
   (Decode js b (ExecInterruptParms lib) = (None, p) \<and> fst (ExecInterrupt mygdb p s) = Some e \<longrightarrow>
      handle_exec_interrupt js lib mygdb b NewResponseWriter s = (\<lparr>status = Some 400, body = Error e\<rparr>, snd (ExecInterrupt mygdb p s))) \<and>
   (Decode js b (BreakEnableParms lib) = (None, p) \<and> fst (BreakEnable mygdb p s) = Some e \<longrightarrow>
      handle_breakpoint_enable js lib mygdb b NewResponseWriter s = (\<lparr>status = Some 400, body = Error e\<rparr>, snd (BreakEnable mygdb p s))) \<and>
   (Decode js b (BreakDisableParms lib) = (None, p) \<and> fst (BreakDisable mygdb p s) = Some e \<longrightarrow>
      handle_breakpoint_disable js lib mygdb b NewResponseWriter s = (\<lparr>status = Some 400, body = Error e\<rparr>, snd (BreakDisable mygdb p s)))"
  by (simp add: respond_fresh handle_thread_listids_def handle_thread_select_def handle_thread_info_def
      handle_frame_stackinfo_def handle_frame_stacklist_def handle_frame_variableslist_def
      handle_file_get_def handle_exec_next_def handle_exec_step_def handle_exec_continue_def
      handle_exec_run_def handle_exec_interrupt_def handle_breakpoint_list_def
      handle_breakpoint_insert_def handle_breakpoint_enable_def handle_breakpoint_disable_def split: sum.splits prod.splits)

theorem backend_error_400_witness:
  "handle_thread_listids example_json (recording_gdb (Inl (errors_New ''no such thread''))) ''{}'' NewResponseWriter [] =
     (\<lparr>status = Some 400, body = ''no such thread''\<rparr>, [(''ThreadListIds'', 0)]) \<and>
   handle_frame_stackinfo example_json (recording_gdb (Inl (errors_New ''no such thread''))) ''{}'' NewResponseWriter [] =
     (\<lparr>status = Some 400, body = ''no such thread''\<rparr>, [(''StackInfoFrame'', 0)]) \<and>
   handle_thread_select example_json zero_parms (recording_gdb (Inl (errors_New ''no such thread''))) ''{}'' NewResponseWriter [] =
     (\<lparr>status = Some 400, body = ''no such thread''\<rparr>, [(''ThreadSelect'', 0)]) \<and>
   handle_thread_info example_json zero_parms (recording_gdb (Inl (errors_New ''no such thread''))) ''{}'' NewResponseWriter [] =
     (\<lparr>status = Some 400, body = ''no such thread''\<rparr>, [(''ThreadInfo'', 0)]) \<and>
   handle_frame_stacklist example_json zero_parms (recording_gdb (Inl (errors_New ''no such thread''))) ''{}'' NewResponseWriter [] =
     (\<lparr>status = Some 400, body = ''no such thread''\<rparr>, [(''StackListFrames'', 0)]) \<and>
   handle_frame_variableslist example_json zero_parms (recording_gdb (Inl (errors_New ''no such thread''))) ''{}'' NewResponseWriter [] =
     (\<lparr>status = Some 400, body = ''no such thread''\<rparr>, [(''StackListVariables'', 0)]) \<and>
   handle_breakpoint_insert example_json zero_parms (recording_gdb (Inl (errors_New ''no such thread''))) ''{}'' NewResponseWriter [] =
     (\<lparr>status = Some 400, body = ''no such thread''\<rparr>, [(''BreakInsert'', 0)]) \<and>
   handle_exec_next example_json zero_parms (recording_gdb (Inl (errors_New ''no such thread''))) ''{}'' NewResponseWriter [] =
     (\<lparr>status = Some 400, body = ''no such thread''\<rparr>, [(''ExecNext'', 0)]) \<and>
   handle_exec_step example_json zero_parms (recording_gdb (Inl (errors_New ''no such thread''))) ''{}'' NewResponseWriter [] =
     (\<lparr>status = Some 400, body = ''no such thread''\<rparr>, [(''ExecStep'', 0)]) \<and>
   handle_exec_continue example_json zero_parms (recording_gdb (Inl (errors_New ''no such thread''))) ''{}'' NewResponseWriter [] =
     (\<lparr>status = Some 400, body = ''no such thread''\<rparr>, [(''ExecContinue'', 0)]) \<and>
   handle_exec_run example_json zero_parms (recording_gdb (Inl (errors_New ''no such thread''))) ''{}'' NewResponseWriter [] =
     (\<lparr>status = Some 400, body = ''no such thread''\<rparr>, [(''ExecRun'', 0)]) \<and>
   handle_exec_interrupt example_json zero_parms (recording_gdb (Inl (errors_New ''no such thread''))) ''{}'' NewResponseWriter [] =
     (\<lparr>status = Some 400, body = ''no such thread''\<rparr>, [(''ExecInterrupt'', 0)]) \<and>
   handle_breakpoint_enable example_json zero_parms (recording_gdb (Inl (errors_New ''no such thread''))) ''{}'' NewResponseWriter [] =
     (\<lparr>status = Some 400, body = ''no such thread''\<rparr>, [(''BreakEnable'', 0)]) \<and>
   handle_breakpoint_disable example_json zero_parms (recording_gdb (Inl (errors_New ''no such thread''))) ''{}'' NewResponseWriter [] =
     (\<lparr>status = Some 400, body = ''no such thread''\<rparr>, [(''BreakDisable'', 0)])"
  using backend_error_400 [where js = example_json and lib = zero_parms and b = "''{}''"
      and mygdb = "recording_gdb (Inl (errors_New ''no such thread''))" and s = "[]" and p = 0
      and e = "errors_New ''no such thread''"]
  by (simp add: example_json_def zero_parms_def recording_gdb_def record_call_def
      record_command_def)

text \<open>
  C1: an error of the bound operation is to be answered with status 400 and the error's
  text at every endpoint. \<open>/handle/breakpoint/list\<close> answers it with status 500, where
  \<open>/handle/thread/listids\<close>, the same handler around another parameterless operation,
  answers 400.
\<close>

theorem breakpoint_list_backend_error_500:
  "handle_breakpoint_list example_json (recording_gdb (Inl (errors_New ''gdb is not running'')))
     [] NewResponseWriter [] =
     (\<lparr>status = Some 500, body = ''gdb is not running''\<rparr>, [(''BreakList'', 0)]) \<and>
   handle_thread_listids example_json (recording_gdb (Inl (errors_New ''gdb is not running'')))
     [] NewResponseWriter [] =
     (\<lparr>status = Some 400, body = ''gdb is not running''\<rparr>, [(''ThreadListIds'', 0)])"
  by (simp add: respond_fresh handle_breakpoint_list_def handle_thread_listids_def
      recording_gdb_def record_call_def)


text \<open>
  C8, as stated, fails: the body \<open>{}\<close> names no field, the decoder accepts it and
  stores nothing, and the operation is called with the zero value of its parameter
  struct (for \<open>/handle/file/get\<close>, \<open>os.Open\<close> is called with the empty path).
\<close>

theorem absent_fields_reach_backend:
  "handle_thread_select example_json zero_parms (recording_gdb (Inr ''ok'')) ''{}''
     NewResponseWriter [] =
     (\<lparr>status = Some 200, body = ''ok''\<rparr>, [(''ThreadSelect'', ThreadSelectParms zero_parms)]) \<and>
   handle_breakpoint_insert example_json zero_parms (recording_gdb (Inr ''ok'')) ''{}''
     NewResponseWriter [] =
     (\<lparr>status = Some 200, body = ''ok''\<rparr>, [(''BreakInsert'', BreakInsertParms zero_parms)]) \<and>
   handle_file_get example_json example_os_Open ''{}'' NewResponseWriter ([] :: (string \<times> nat) list) =
     (\<lparr>status = Some 500, body = ''open : no such file or directory''\<rparr>, [])"
  by (simp add: respond_fresh handle_thread_select_def handle_breakpoint_insert_def
      handle_file_get_def example_json_def recording_gdb_def record_call_def zero_parms_def
      example_os_Open_def index_def)

text \<open>
  C8, amended: at every endpoint that takes parameters the decoder alone decides. When it
  reports no error the operation is called with the value the decoder left in the
  parameter struct, which started as the zero value; when it reports an error the
  operation is not called. The handlers make no check of their own.
\<close>

theorem decoder_alone_gates_operation:
  "(Decode js b (ThreadSelectParms lib) = (None, p) \<longrightarrow>
      snd (handle_thread_select js lib mygdb b w s) = snd (ThreadSelect mygdb p s)) \<and>
   (Decode js b (ThreadSelectParms lib) = (Some e, p) \<longrightarrow>
      snd (handle_thread_select js lib mygdb b w s) = s) \<and>
   (Decode js b (ThreadInfoParms lib) = (None, p) \<longrightarrow>
      snd (handle_thread_info js lib mygdb b w s) = snd (ThreadInfo mygdb p s)) \<and>
   (Decode js b (ThreadInfoParms lib) = (Some e, p) \<longrightarrow>
      snd (handle_thread_info js lib mygdb b w s) = s) \<and>
   (Decode js b (StackListFramesParms lib) = (None, p) \<longrightarrow>
      snd (handle_frame_stacklist js lib mygdb b w s) = snd (StackListFrames mygdb p s)) \<and>
   (Decode js b (StackListFramesParms lib) = (Some e, p) \<longrightarrow>
      snd (handle_frame_stacklist js lib mygdb b w s) = s) \<and>
   (Decode js b (StackListVariablesParms lib) = (None, p) \<longrightarrow>
      snd (handle_frame_variableslist js lib mygdb b w s) = snd (StackListVariables mygdb p s)) \<and>
   (Decode js b (StackListVariablesParms lib) = (Some e, p) \<longrightarrow>
      snd (handle_frame_variableslist js lib mygdb b w s) = s) \<and>
   (Decode js b (BreakInsertParms lib) = (None, p) \<longrightarrow>
      snd (handle_breakpoint_insert js lib mygdb b w s) = snd (BreakInsert mygdb p s)) \<and>
   (Decode js b (BreakInsertParms lib) = (Some e, p) \<longrightarrow>
      snd (handle_breakpoint_insert js lib mygdb b w s) = s) \<and>
   (Decode js b (ExecNextParms lib) = (None, p) \<longrightarrow>
      snd (handle_exec_next js lib mygdb b w s) = snd (ExecNext mygdb p s)) \<and>
   (Decode js b (ExecNextParms lib) = (Some e, p) \<longrightarrow>
      snd (handle_exec_next js lib mygdb b w s) = s) \<and>
   (Decode js b (ExecStepParms lib) = (None, p) \<longrightarrow>
      snd (handle_exec_step js lib mygdb b w s) = snd (ExecStep mygdb p s)) \<and>
   (Decode js b (ExecStepParms lib) = (Some e, p) \<longrightarrow>
      snd (handle_exec_step js lib mygdb b w s) = s) \<and>
   (Decode js b (ExecContinueParms lib) = (None, p) \<longrightarrow>
      snd (handle_exec_continue js lib mygdb b w s) = snd (ExecContinue mygdb p s)) \<and>
   (Decode js b (ExecContinueParms lib) = (Some e, p) \<longrightarrow>
      snd (handle_exec_continue js lib mygdb b w s) = s) \<and>
   (Decode js b (ExecRunParms lib) = (None, p) \<longrightarrow>
      snd (handle_exec_run js lib mygdb b w s) = snd (ExecRun mygdb p s)) \<and>
   (Decode js b (ExecRunParms lib) = (Some e, p) \<longrightarrow>
      snd (handle_exec_run js lib mygdb b w s) = s) \<and>
   (Decode js b (ExecInterruptParms lib) = (None, p) \<longrightarrow>
      snd (handle_exec_interrupt js lib mygdb b w s) = snd (ExecInterrupt mygdb p s)) \<and>
   (Decode js b (ExecInterruptParms lib) = (Some e, p) \<longrightarrow>
      snd (handle_exec_interrupt js lib mygdb b w s) = s) \<and>
   (Decode js b (BreakEnableParms lib) = (None, p) \<longrightarrow>
      snd (handle_breakpoint_enable js lib mygdb b w s) = snd (BreakEnable mygdb p s)) \<and>
   (Decode js b (BreakEnableParms lib) = (Some e, p) \<longrightarrow>
      snd (handle_breakpoint_enable js lib mygdb b w s) = s) \<and>
   (Decode js b (BreakDisableParms lib) = (None, p) \<longrightarrow>
      snd (handle_breakpoint_disable js lib mygdb b w s) = snd (BreakDisable mygdb p s)) \<and>
   (Decode js b (BreakDisableParms lib) = (Some e, p) \<longrightarrow>
      snd (handle_breakpoint_disable js lib mygdb b w s) = s) \<and>
   (DecodeMap js b Map.empty = (None, m) \<and> os_Open (index m ''File'') = Inl e \<longrightarrow>
      handle_file_get js os_Open b NewResponseWriter s =
        (\<lparr>status = Some 500, body = Error e\<rparr>, s)) \<and>
   (DecodeMap js b Map.empty = (None, m) \<and> os_Open (index m ''File'') = Inr file \<and>
    copy_err file = None \<longrightarrow>
      handle_file_get js os_Open b NewResponseWriter s =
        (\<lparr>status = Some 200, body = contents file\<rparr>, s))"
proof (intro conjI impI)
qed (simp_all add: respond_fresh header_fresh Write_after_header io_Copy_def handle_thread_select_def
    handle_thread_info_def handle_frame_stacklist_def handle_frame_variableslist_def
    handle_file_get_def handle_exec_next_def handle_exec_step_def handle_exec_continue_def
    handle_exec_run_def handle_exec_interrupt_def handle_breakpoint_insert_def
    handle_breakpoint_enable_def handle_breakpoint_disable_def
    split: sum.splits prod.splits option.splits)

theorem decoder_alone_gates_operation_witness:
  "snd (handle_thread_select example_json zero_parms (recording_gdb (Inr ''ok'')) ''{}'' NewResponseWriter []) =
     [(''ThreadSelect'', ThreadSelectParms zero_parms)] \<and>
   snd (handle_thread_select example_json zero_parms (recording_gdb (Inr ''ok'')) ''{'' NewResponseWriter []) = [] \<and>
   snd (handle_thread_info example_json zero_parms (recording_gdb (Inr ''ok'')) ''{}'' NewResponseWriter []) =
     [(''ThreadInfo'', ThreadInfoParms zero_parms)] \<and>
   snd (handle_thread_info example_json zero_parms (recording_gdb (Inr ''ok'')) ''{'' NewResponseWriter []) = [] \<and>
   snd (handle_frame_stacklist example_json zero_parms (recording_gdb (Inr ''ok'')) ''{}'' NewResponseWriter []) =
     [(''StackListFrames'', StackListFramesParms zero_parms)] \<and>
   snd (handle_frame_stacklist example_json zero_parms (recording_gdb (Inr ''ok'')) ''{'' NewResponseWriter []) = [] \<and>
   snd (handle_frame_variableslist example_json zero_parms (recording_gdb (Inr ''ok'')) ''{}'' NewResponseWriter []) =
     [(''StackListVariables'', StackListVariablesParms zero_parms)] \<and>
   snd (handle_frame_variableslist example_json zero_parms (recording_gdb (Inr ''ok'')) ''{'' NewResponseWriter []) = [] \<and>
   snd (handle_breakpoint_insert example_json zero_parms (recording_gdb (Inr ''ok'')) ''{}'' NewResponseWriter []) =
     [(''BreakInsert'', BreakInsertParms zero_parms)] \<and>
   snd (handle_breakpoint_insert example_json zero_parms (recording_gdb (Inr ''ok'')) ''{'' NewResponseWriter []) = [] \<and>
   snd (handle_exec_next example_json zero_parms (recording_gdb (Inr ''ok'')) ''{}'' NewResponseWriter []) =
     [(''ExecNext'', ExecNextParms zero_parms)] \<and>
   snd (handle_exec_next example_json zero_parms (recording_gdb (Inr ''ok'')) ''{'' NewResponseWriter []) = [] \<and>
   snd (handle_exec_step example_json zero_parms (recording_gdb (Inr ''ok'')) ''{}'' NewResponseWriter []) =
     [(''ExecStep'', ExecStepParms zero_parms)] \<and>
   snd (handle_exec_step example_json zero_parms (recording_gdb (Inr ''ok'')) ''{'' NewResponseWriter []) = [] \<and>
   snd (handle_exec_continue example_json zero_parms (recording_gdb (Inr ''ok'')) ''{}'' NewResponseWriter []) =
     [(''ExecContinue'', ExecContinueParms zero_parms)] \<and>
   snd (handle_exec_continue example_json zero_parms (recording_gdb (Inr ''ok'')) ''{'' NewResponseWriter []) = [] \<and>
   snd (handle_exec_run example_json zero_parms (recording_gdb (Inr ''ok'')) ''{}'' NewResponseWriter []) =
     [(''ExecRun'', ExecRunParms zero_parms)] \<and>
   snd (handle_exec_run example_json zero_parms (recording_gdb (Inr ''ok'')) ''{'' NewResponseWriter []) = [] \<and>
   snd (handle_exec_interrupt example_json zero_parms (recording_gdb (Inr ''ok'')) ''{}'' NewResponseWriter []) =
     [(''ExecInterrupt'', ExecInterruptParms zero_parms)] \<and>
   snd (handle_exec_interrupt example_json zero_parms (recording_gdb (Inr ''ok'')) ''{'' NewResponseWriter []) = [] \<and>
   snd (handle_breakpoint_enable example_json zero_parms (recording_gdb (Inr ''ok'')) ''{}'' NewResponseWriter []) =
     [(''BreakEnable'', BreakEnableParms zero_parms)] \<and>
   snd (handle_breakpoint_enable example_json zero_parms (recording_gdb (Inr ''ok'')) ''{'' NewResponseWriter []) = [] \<and>
   snd (handle_breakpoint_disable example_json zero_parms (recording_gdb (Inr ''ok'')) ''{}'' NewResponseWriter []) =
     [(''BreakDisable'', BreakDisableParms zero_parms)] \<and>
   snd (handle_breakpoint_disable example_json zero_parms (recording_gdb (Inr ''ok'')) ''{'' NewResponseWriter []) = [] \<and>
   handle_file_get example_json example_os_Open ''{}'' NewResponseWriter ([] :: (string \<times> nat) list) =
     (\<lparr>status = Some 500, body = ''open : no such file or directory''\<rparr>, [])"
  using decoder_alone_gates_operation [where js = example_json and lib = zero_parms
      and b = "''{}''" and mygdb = "recording_gdb (Inr ''ok'')" and s = "[]" and p = 0
      and w = NewResponseWriter and m = Map.empty and os_Open = example_os_Open
      and e = "errors_New ''open : no such file or directory''"]
    decoder_alone_gates_operation [where js = example_json and lib = zero_parms
      and b = "''{''" and mygdb = "recording_gdb (Inr ''ok'')" and s = "[]" and p = 0
      and w = NewResponseWriter and e = "errors_New ''unexpected EOF''"]
  by (simp add: example_json_def zero_parms_def recording_gdb_def record_call_def
      record_command_def example_os_Open_def index_def)

section \<open>Properties of the event multiplexer\<close>

lemma deliver_marshal_error:
  "Marshal_envelope io \<lparr>Type = ty, Data = data\<rparr> = Inl err \<Longrightarrow>
   deliver io mygdb ty data dur st = st\<lparr>now := now st + dur\<rparr>"
  by (simp add: deliver_def)

lemma deliver_write_ok:
  "Marshal_envelope io \<lparr>Type = ty, Data = data\<rparr> = Inr bytes \<Longrightarrow>
   ws_Write io bytes (ws st) = (None, ws') \<Longrightarrow>
   deliver io mygdb ty data dur st =
     st\<lparr>ws := ws', now := now st + dur,
        trace := trace st @
          [WsWrite (now st) (now st + dur) \<lparr>Type = ty, Data = data\<rparr> bytes None]\<rparr>"
  by (simp add: deliver_def)

lemma deliver_write_error:
  "Marshal_envelope io \<lparr>Type = ty, Data = data\<rparr> = Inr bytes \<Longrightarrow>
   ws_Write io bytes (ws st) = (Some err, ws') \<Longrightarrow>
   deliver io mygdb ty data dur st =
     st\<lparr>session := GdbExit mygdb (session st), ws := ws', now := now st + dur,
        trace := trace st @
          [WsWrite (now st) (now st + dur) \<lparr>Type = ty, Data = data\<rparr> bytes (Some err),
           Printf ''Client disconnect\<newline>'', Call_GdbExit]\<rparr>"
  by (simp add: deliver_def)

lemma chans_deliver [simp]: "chans (deliver io mygdb ty data dur st) = chans st"
  by (simp add: deliver_def split: sum.splits prod.splits option.splits)

lemma now_deliver [simp]: "now (deliver io mygdb ty data dur st) = now st + dur"
  by (simp add: deliver_def split: sum.splits prod.splits option.splits)

lemma written_append [simp]: "written ty (tr @ tr') = written ty tr @ written ty tr'"
  by (induction ty tr rule: written.induct) simp_all



lemma fold_offer_le:
  "fold (\<lambda>q m. case offer t q of None \<Rightarrow> m | Some a \<Rightarrow> min a m) qs m0 \<le> m0"
proof (induction qs arbitrary: m0)
  case Nil
  show ?case by simp
next
  case (Cons q qs)
  have "fold (\<lambda>q m. case offer t q of None \<Rightarrow> m | Some a \<Rightarrow> min a m) qs
          (case offer t q of None \<Rightarrow> m0 | Some a \<Rightarrow> min a m0)
        \<le> (case offer t q of None \<Rightarrow> m0 | Some a \<Rightarrow> min a m0)"
    by (rule Cons.IH)
  also have "\<dots> \<le> m0" by (simp split: option.splits)
  finally show ?case by simp
qed



lemma wake_le_timer: "wake t ch \<le> t + timeout"
  unfolding wake_def by (rule fold_offer_le)

lemma iteration_Some:
  "iteration io mygdb (c, dur) st = Some st' \<Longrightarrow>
   \<exists>env. envelope_of c (chans st) = Some env \<and> Type env = kind c \<and>
     st' = deliver io mygdb (Type env) (Data env) dur
             (st\<lparr>chans := after_recv c (chans st), now := wake (now st) (chans st)\<rparr>)"
  by (cases c) (auto simp: iteration_def Let_def split: list.splits if_splits)


















lemma iteration_write_error:
  assumes it: "iteration io mygdb (c, dur) st = Some st'"
    and env: "envelope_of c (chans st) = Some env"
    and m: "Marshal_envelope io env = Inr bytes"
    and w: "ws_Write io bytes (ws st) = (Some err, ws')"
  shows "session st' = GdbExit mygdb (session st) \<and> ws st' = ws' \<and>
         trace st' = trace st @
           [WsWrite (wake (now st) (chans st)) (wake (now st) (chans st) + dur) env bytes (Some err),
            Printf ''Client disconnect\<newline>'', Call_GdbExit]"
proof -
  let ?st = "st\<lparr>chans := after_recv c (chans st), now := wake (now st) (chans st)\<rparr>"
  from iteration_Some [OF it] env have
    st': "st' = deliver io mygdb (Type env) (Data env) dur ?st"
    by auto
  have e: "\<lparr>Type = Type env, Data = Data env\<rparr> = env" by simp
  from m have m': "Marshal_envelope io \<lparr>Type = Type env, Data = Data env\<rparr> = Inr bytes"
    by (simp only: e)
  from w have w': "ws_Write io bytes (ws ?st) = (Some err, ws')" by simp
  from deliver_write_error [OF m' w', of mygdb dur] show ?thesis
    by (simp add: st' e)
qed

lemma iteration_marshal_error:
  assumes it: "iteration io mygdb (c, dur) st = Some st'"
    and env: "envelope_of c (chans st) = Some env"
    and m: "Marshal_envelope io env = Inl err"
  shows "st' = st\<lparr>chans := after_recv c (chans st), now := wake (now st) (chans st) + dur\<rparr>"
proof -
  let ?st = "st\<lparr>chans := after_recv c (chans st), now := wake (now st) (chans st)\<rparr>"
  from iteration_Some [OF it] env have
    st': "st' = deliver io mygdb (Type env) (Data env) dur ?st"
    by auto
  have e: "\<lparr>Type = Type env, Data = Data env\<rparr> = env" by simp
  from m have m': "Marshal_envelope io \<lparr>Type = Type env, Data = Data env\<rparr> = Inl err"
    by (simp only: e)
  from deliver_marshal_error [OF m', of mygdb dur ?st] show ?thesis
    by (simp add: st')
qed

lemma iteration_writes:
  assumes it: "iteration io mygdb (c, dur) st = Some st'"
    and env: "envelope_of c (chans st) = Some env"
    and m: "Marshal_envelope io env = Inr bytes"
  shows "WsWrite (wake (now st) (chans st)) (wake (now st) (chans st) + dur) env bytes
           (fst (ws_Write io bytes (ws st))) \<in> set (trace st')"
proof -
  let ?st = "st\<lparr>chans := after_recv c (chans st), now := wake (now st) (chans st)\<rparr>"
  from iteration_Some [OF it] env have
    st': "st' = deliver io mygdb (Type env) (Data env) dur ?st"
    by auto
  have e: "\<lparr>Type = Type env, Data = Data env\<rparr> = env" by simp
  from m have m': "Marshal_envelope io \<lparr>Type = Type env, Data = Data env\<rparr> = Inr bytes"
    by (simp only: e)
  obtain er ws' where w: "ws_Write io bytes (ws ?st) = (er, ws')"
    by (cases "ws_Write io bytes (ws ?st)")
  show ?thesis
  proof (cases er)
    case None
    with w have "ws_Write io bytes (ws ?st) = (None, ws')" by simp
    from deliver_write_ok [OF m' this, of mygdb dur] w None show ?thesis
      by (simp add: st' e)
  next
    case (Some x)
    with w have "ws_Write io bytes (ws ?st) = (Some x, ws')" by simp
    from deliver_write_error [OF m' this, of mygdb dur] w Some show ?thesis
      by (simp add: st' e)
  qed
qed

lemma output_loop_step:
  "iteration io mygdb x st = Some st' \<Longrightarrow>
   output_loop io mygdb (x # rest) st = output_loop io mygdb rest st'"
  by simp

text \<open>
  C10: when \<open>json.Marshal\<close> fails on the envelope of a received event, the iteration
  writes nothing to the client, prints nothing, does not call \<open>GdbExit\<close> and leaves the
  session as it is; the event has left its channel, and the loop goes on with the rest of
  the schedule.
\<close>

theorem marshal_error_drops_event:
  "iteration io mygdb (c, dur) st = Some st' \<and> envelope_of c (chans st) = Some env \<and>
   Marshal_envelope io env = Inl err \<longrightarrow>
     trace st' = trace st \<and> ws st' = ws st \<and> session st' = session st \<and>
     chans st' = after_recv c (chans st) \<and>
     output_loop io mygdb ((c, dur) # rest) st = output_loop io mygdb rest st'"
proof
  assume h: "iteration io mygdb (c, dur) st = Some st' \<and> envelope_of c (chans st) = Some env \<and>
   Marshal_envelope io env = Inl err"
  then have "st' = st\<lparr>chans := after_recv c (chans st), now := wake (now st) (chans st) + dur\<rparr>"
    using iteration_marshal_error by blast
  then have "trace st' = trace st \<and> ws st' = ws st \<and> session st' = session st \<and>
     chans st' = after_recv c (chans st)"
    by simp
  moreover from h have "output_loop io mygdb ((c, dur) # rest) st = output_loop io mygdb rest st'"
    by (simp add: output_loop_step)
  ultimately show "trace st' = trace st \<and> ws st' = ws st \<and> session st' = session st \<and>
     chans st' = after_recv c (chans st) \<and>
     output_loop io mygdb ((c, dur) # rest) st = output_loop io mygdb rest st'"
    by simp
qed

text \<open>
  C4, amended: an iteration whose write fails prints the disconnect message and calls
  \<open>GdbExit\<close> once, and the loop goes on with the next iteration; in every state, also
  after a failed write, an iteration whose envelope encodes calls \<open>ws.Write\<close> with the
  bytes. The loop has no exit of its own.
\<close>

theorem loop_continues_after_write_error:
  "(iteration io mygdb (c, dur) st = Some st' \<and> envelope_of c (chans st) = Some env \<and>
    Marshal_envelope io env = Inr bytes \<and> ws_Write io bytes (ws st) = (Some err, ws') \<longrightarrow>
      session st' = GdbExit mygdb (session st) \<and>
      trace st' = trace st @
        [WsWrite (wake (now st) (chans st)) (wake (now st) (chans st) + dur) env bytes (Some err),
         Printf ''Client disconnect\<newline>'', Call_GdbExit] \<and>
      output_loop io mygdb ((c, dur) # rest) st = output_loop io mygdb rest st') \<and>
   (iteration io mygdb (c, dur) st = Some st' \<and> envelope_of c (chans st) = Some env \<and>
    Marshal_envelope io env = Inr bytes \<longrightarrow>
      WsWrite (wake (now st) (chans st)) (wake (now st) (chans st) + dur) env bytes
        (fst (ws_Write io bytes (ws st))) \<in> set (trace st'))"
proof (rule conjI)
  show "iteration io mygdb (c, dur) st = Some st' \<and> envelope_of c (chans st) = Some env \<and>
    Marshal_envelope io env = Inr bytes \<and> ws_Write io bytes (ws st) = (Some err, ws') \<longrightarrow>
      session st' = GdbExit mygdb (session st) \<and>
      trace st' = trace st @
        [WsWrite (wake (now st) (chans st)) (wake (now st) (chans st) + dur) env bytes (Some err),
         Printf ''Client disconnect\<newline>'', Call_GdbExit] \<and>
      output_loop io mygdb ((c, dur) # rest) st = output_loop io mygdb rest st'"
    using iteration_write_error [of io mygdb c dur st st' env bytes err ws']
    by (simp add: output_loop_step)
next
  show "iteration io mygdb (c, dur) st = Some st' \<and> envelope_of c (chans st) = Some env \<and>
    Marshal_envelope io env = Inr bytes \<longrightarrow>
      WsWrite (wake (now st) (chans st)) (wake (now st) (chans st) + dur) env bytes
        (fst (ws_Write io bytes (ws st))) \<in> set (trace st')"
    using iteration_writes [of io mygdb c dur st st' env bytes] by blast
qed


lemmas run_simps = output_handler_def iteration_def deliver_def wake_def offer_def
  example_io_def recording_gdb_def timeout_def Second_def Let_def


lemma step_refused:
  "iteration (example_io 5) (recording_gdb (Inr ''ok'')) (recv_InternalLog, 1)
     \<lparr>session = [], chans = refused_chans, ws = 0, now = 0, trace = []\<rparr> =
   Some \<lparr>session = [],
         chans = \<lparr>Console = [], Target = [], InternalLog = [(0, Str ''later'')], AsyncResults = []\<rparr>,
         ws = 0, now = 1, trace = []\<rparr>"
  by (simp add: run_simps refused_chans_def)




lemma step_dead_client:
  "iteration (example_io 0) (recording_gdb (Inr ''ok'')) (recv_Console, 1) \<lparr>session = [], chans = interleaved_chans, ws = 0, now = 0, trace = []\<rparr> =
   Some \<lparr>session = [(''GdbExit'', 0)],
       chans = \<lparr>Console = [(5, Str ''b'')], Target = [(1, Str ''x'')], InternalLog = [], AsyncResults = []\<rparr>,
       ws = 1, now = 1,
       trace = [WsWrite 0 1 \<lparr>Type = ''console'', Data = Str ''a''\<rparr> ''console:a''
                  (Some (errors_New ''broken pipe'')),
                Printf ''Client disconnect\<newline>'', Call_GdbExit]\<rparr>"
  by (simp add: run_simps interleaved_chans_def)


theorem marshal_error_drops_event_witness:
  "iteration (example_io 5) (recording_gdb (Inr ''ok'')) (recv_InternalLog, 1) \<lparr>session = [], chans = refused_chans, ws = 0, now = 0, trace = []\<rparr> =
     Some \<lparr>session = [], chans = \<lparr>Console = [], Target = [], InternalLog = [(0, Str ''later'')], AsyncResults = []\<rparr>, ws = 0, now = 1, trace = []\<rparr> \<and>
   envelope_of recv_InternalLog refused_chans = Some \<lparr>Type = ''gdb'', Data = Val ()\<rparr> \<and>
   Marshal_envelope (example_io 5) \<lparr>Type = ''gdb'', Data = Val ()\<rparr> =
     Inl (errors_New ''json: unsupported type'') \<and>
   output_loop (example_io 5) (recording_gdb (Inr ''ok'')) [(recv_InternalLog, 1), (recv_InternalLog, 1)] \<lparr>session = [], chans = refused_chans, ws = 0, now = 0, trace = []\<rparr> =
   output_loop (example_io 5) (recording_gdb (Inr ''ok'')) [(recv_InternalLog, 1)] \<lparr>session = [], chans = \<lparr>Console = [], Target = [], InternalLog = [(0, Str ''later'')], AsyncResults = []\<rparr>, ws = 0, now = 1, trace = []\<rparr>"
  using marshal_error_drops_event [where io = "example_io 5" and mygdb = "recording_gdb (Inr ''ok'')"
      and c = recv_InternalLog and dur = 1 and st = "\<lparr>session = [], chans = refused_chans, ws = 0, now = 0, trace = []\<rparr>" and st' = "\<lparr>session = [], chans = \<lparr>Console = [], Target = [], InternalLog = [(0, Str ''later'')], AsyncResults = []\<rparr>, ws = 0, now = 1, trace = []\<rparr>"
      and env = "\<lparr>Type = ''gdb'', Data = Val ()\<rparr>"
      and err = "errors_New ''json: unsupported type''" and rest = "[(recv_InternalLog, 1)]"]
    step_refused
  by (simp add: refused_chans_def example_io_def)

text \<open>
  C4, as stated, fails: with a client that is gone, the write of a console event fails
  and \<open>GdbExit\<close> is called; the loop then proceeds with the target event, calls
  \<open>ws.Write\<close> again, and calls \<open>GdbExit\<close> a second time.
\<close>

theorem writes_continue_after_write_error:
  "output_handler (example_io 0) (recording_gdb (Inr ''ok'')) [] interleaved_chans 0 0
     [(recv_Console, 1), (recv_Target, 1)] =
   \<lparr>session = [(''GdbExit'', 0), (''GdbExit'', 0)],
    chans = \<lparr>Console = [(5, Str ''b'')], Target = [], InternalLog = [], AsyncResults = []\<rparr>,
    ws = 2, now = 2,
    trace = [WsWrite 0 1 \<lparr>Type = ''console'', Data = Str ''a''\<rparr> ''console:a''
               (Some (errors_New ''broken pipe'')),
             Printf ''Client disconnect\<newline>'', Call_GdbExit,
             WsWrite 1 2 \<lparr>Type = ''target'', Data = Str ''x''\<rparr> ''target:x''
               (Some (errors_New ''broken pipe'')),
             Printf ''Client disconnect\<newline>'', Call_GdbExit]\<rparr>"
  by (simp add: run_simps interleaved_chans_def)

theorem loop_continues_after_write_error_witness:
  "iteration (example_io 0) (recording_gdb (Inr ''ok'')) (recv_Console, 1) \<lparr>session = [], chans = interleaved_chans, ws = 0, now = 0, trace = []\<rparr> =
     Some \<lparr>session = [(''GdbExit'', 0)],
       chans = \<lparr>Console = [(5, Str ''b'')], Target = [(1, Str ''x'')], InternalLog = [], AsyncResults = []\<rparr>,
       ws = 1, now = 1,
       trace = [WsWrite 0 1 \<lparr>Type = ''console'', Data = Str ''a''\<rparr> ''console:a''
                  (Some (errors_New ''broken pipe'')),
                Printf ''Client disconnect\<newline>'', Call_GdbExit]\<rparr> \<and>
   output_loop (example_io 0) (recording_gdb (Inr ''ok'')) [(recv_Console, 1), (recv_Target, 1)] \<lparr>session = [], chans = interleaved_chans, ws = 0, now = 0, trace = []\<rparr> =
   output_loop (example_io 0) (recording_gdb (Inr ''ok'')) [(recv_Target, 1)] \<lparr>session = [(''GdbExit'', 0)],
       chans = \<lparr>Console = [(5, Str ''b'')], Target = [(1, Str ''x'')], InternalLog = [], AsyncResults = []\<rparr>,
       ws = 1, now = 1,
       trace = [WsWrite 0 1 \<lparr>Type = ''console'', Data = Str ''a''\<rparr> ''console:a''
                  (Some (errors_New ''broken pipe'')),
                Printf ''Client disconnect\<newline>'', Call_GdbExit]\<rparr> \<and>
   WsWrite 0 1 \<lparr>Type = ''console'', Data = Str ''a''\<rparr> ''console:a''
     (Some (errors_New ''broken pipe'')) \<in> set (trace \<lparr>session = [(''GdbExit'', 0)],
       chans = \<lparr>Console = [(5, Str ''b'')], Target = [(1, Str ''x'')], InternalLog = [], AsyncResults = []\<rparr>,
       ws = 1, now = 1,
       trace = [WsWrite 0 1 \<lparr>Type = ''console'', Data = Str ''a''\<rparr> ''console:a''
                  (Some (errors_New ''broken pipe'')),
                Printf ''Client disconnect\<newline>'', Call_GdbExit]\<rparr>)"
  using loop_continues_after_write_error [where io = "example_io 0" and mygdb = "recording_gdb (Inr ''ok'')"
      and c = recv_Console and dur = 1 and st = "\<lparr>session = [], chans = interleaved_chans, ws = 0, now = 0, trace = []\<rparr>" and st' = "\<lparr>session = [(''GdbExit'', 0)],
       chans = \<lparr>Console = [(5, Str ''b'')], Target = [(1, Str ''x'')], InternalLog = [], AsyncResults = []\<rparr>,
       ws = 1, now = 1,
       trace = [WsWrite 0 1 \<lparr>Type = ''console'', Data = Str ''a''\<rparr> ''console:a''
                  (Some (errors_New ''broken pipe'')),
                Printf ''Client disconnect\<newline>'', Call_GdbExit]\<rparr>"
      and env = "\<lparr>Type = ''console'', Data = Str ''a''\<rparr>" and bytes = "''console:a''"
      and err = "errors_New ''broken pipe''" and ws' = 1 and rest = "[(recv_Target, 1)]"]
    step_dead_client
  by (simp add: interleaved_chans_def example_io_def)



end
